theory Spec2Isabelle
  imports Main "HOL-Library.AList"
begin

section \<open>Data model\<close>

text \<open>
  The module \<^verbatim>\<open>src/index.ts\<close> keeps two counter indexes, \<^verbatim>\<open>tags\<close> and \<^verbatim>\<open>people\<close>, in a
  DynamoDB table. A JavaScript object used as a dictionary is an association list in
  insertion order; a property write replaces the value of an existing key in place and
  appends a new key at the end, which is \<^const>\<open>AList.update\<close>. JavaScript lists keys that
  look like array indexes before the others; the statements below read a dictionary by
  its keys, so they do not depend on the order. A counter is a JavaScript number, taken to
  be an integer as the spec has it and modelled as \<^typ>\<open>int\<close>.
\<close>

definition TAGS_ID :: string where
  "TAGS_ID = ''tags''"

definition PEOPLE_ID :: string where
  "PEOPLE_ID = ''people''"

definition INDEX_KEYS_PROP :: string where
  "INDEX_KEYS_PROP = ''indexKeys''"

text \<open>
  A value that a JavaScript \<^verbatim>\<open>throw\<close> or a rejected promise carries: a plain \<^verbatim>\<open>Error\<close>, a
  \<^verbatim>\<open>TypeError\<close> of the runtime, or the SDK's \<^verbatim>\<open>AWSError\<close> with its code and message.
\<close>

datatype error = Error string | TypeError string | AWSError string string

fun err_code :: "error \<Rightarrow> string option" where
  "err_code (AWSError c m) = Some c"
| "err_code (Error m) = None"
| "err_code (TypeError m) = None"

fun err_message :: "error \<Rightarrow> string" where
  "err_message (AWSError c m) = m"
| "err_message (Error m) = m"
| "err_message (TypeError m) = m"

text \<open>Sequencing of a computation that may throw (or of a promise that may reject).\<close>

fun bindE :: "error + 'a \<Rightarrow> ('a \<Rightarrow> error + 'b) \<Rightarrow> error + 'b" where
  "bindE (Inl e) f = Inl e"
| "bindE (Inr x) f = f x"

text \<open>
  Modelled from the spec: \<^verbatim>\<open>src/types.ts\<close> is not among the sources. \<^verbatim>\<open>IIndexDictionary\<close> is
  the spec's CounterMap (string key to integer count) and \<^verbatim>\<open>IIndex\<close> the spec's IndexSet
  with its two slots.

  The two dictionaries of an \<^verbatim>\<open>IIndex\<close> are objects on the JavaScript heap, and the
  module shares them between values, so an \<^verbatim>\<open>IIndex\<close> holds the addresses of its two
  dictionaries and the heap maps an address to the dictionary's present contents.
\<close>

type_synonym IIndexDictionary = "(string \<times> int) list"

type_synonym addr = nat

type_synonym heap = "addr \<Rightarrow> IIndexDictionary"

record IIndex =
  people :: addr
  tags :: addr

text \<open>
  \<^verbatim>\<open>const defaultIndex: IIndex = { people: {}, tags: {} }\<close>: two dictionary objects are
  allocated once, when the module is loaded, at the addresses 0 and 1; both are empty in
  the heap of a freshly loaded module.
\<close>

definition defaultIndex :: IIndex where
  "defaultIndex = \<lparr>people = 0, tags = 1\<rparr>"

definition fresh_heap :: heap where
  "fresh_heap = (\<lambda>a. [])"

definition Object_keys :: "('k \<times> 'v) list \<Rightarrow> 'k list" where
  "Object_keys obj = map fst obj"

text \<open>
  \<^verbatim>\<open>process.env.DYNAMODB_TABLE_INDEXES\<close> is a parameter: \<open>None\<close> when the variable is not
  set; the empty string is falsy as well.
\<close>

definition getIndexTableName :: "string option \<Rightarrow> error + string" where
  "getIndexTableName env =
     (case env of
        Some t \<Rightarrow> if t \<noteq> [] then Inr t
                  else Inl (Error ''No DYNAMODB_TABLE_INDEXES env variable set'')
      | None \<Rightarrow> Inl (Error ''No DYNAMODB_TABLE_INDEXES env variable set''))"

section \<open>The storage gateway\<close>

text \<open>
  The DynamoDB document client is outside the module. What the module sends to it is
  data: the parameters of an \<^verbatim>\<open>update\<close> and of a \<^verbatim>\<open>batchWrite\<close>. An attribute value is a
  number or a map of numbers, the only two kinds the module sends or reads.
\<close>

datatype attr = N int | M IIndexDictionary

type_synonym item = "(string \<times> attr) list"

record UpdateItemInput =
  ConditionExpression :: "string option"
  ExpressionAttributeNames :: "(string \<times> string) list"
  ExpressionAttributeValues :: "(string \<times> attr) list"
  Key :: string
  ReturnValues :: "string option"
  TableName :: string
  UpdateExpression :: string

record PutRequest =
  put_id :: string
  put_indexKeys :: IIndexDictionary

record BatchWriteItemInput =
  RequestItems :: "(string \<times> PutRequest list) list"

datatype request = Update UpdateItemInput | BatchWrite BatchWriteItemInput

datatype response = UpdateItemOutput "item option" | BatchWriteItemOutput

text \<open>
  The gateway is any function from a request and the store's state to an outcome and the
  next state: every behaviour of the real service (a failure of any kind, the effect of
  another writer) is some such function. The module's side of the conversation is
  recorded in \<open>sent\<close>, the requests submitted so far, oldest first.
\<close>

type_synonym 'db gateway = "request \<Rightarrow> 'db \<Rightarrow> (error + response) \<times> 'db"

record 'db gstate =
  db :: 'db
  sent :: "request list"

definition submit :: "'db gateway \<Rightarrow> request \<Rightarrow> 'db gstate \<Rightarrow> (error + response) \<times> 'db gstate" where
  "submit gw req g =
     (case gw req (db g) of (r, d) \<Rightarrow> (r, \<lparr>db = d, sent = sent g @ [req]\<rparr>))"

section \<open>Index Record Codec\<close>

text \<open>
  A record of the batch-read result: its \<^verbatim>\<open>id\<close> and, when the record has the attribute,
  the address of its \<^verbatim>\<open>indexKeys\<close> dictionary (an object is truthy, an absent attribute is
  \<^verbatim>\<open>undefined\<close>). \<^verbatim>\<open>Responses\<close> is optional and maps a table name to the records read.
\<close>

record ResponseItem =
  item_id :: string
  item_indexKeys :: "addr option"

record BatchGetItemOutput =
  Responses :: "(string \<times> ResponseItem list) list option"

definition find_record :: "string \<Rightarrow> (string \<times> ResponseItem list) list \<Rightarrow> string
    \<Rightarrow> error + ResponseItem option" where
  "find_record slot resp t =
     (case map_of resp t of
        None \<Rightarrow> Inl (TypeError ''Cannot read property find of undefined'')
      | Some items \<Rightarrow> Inr (List.find (\<lambda>response. item_id response = slot) items))"

definition record_keys :: "ResponseItem option \<Rightarrow> addr \<Rightarrow> addr" where
  "record_keys r dflt =
     (case r of
        Some rec \<Rightarrow> (case item_indexKeys rec of Some a \<Rightarrow> a | None \<Rightarrow> dflt)
      | None \<Rightarrow> dflt)"

text \<open>
  \<^verbatim>\<open>parseIndexesObject\<close>, lines 57-70. The spread \<^verbatim>\<open>{...defaultIndex}\<close> makes a new outer
  object whose two fields hold the very dictionaries of \<^const>\<open>defaultIndex\<close>.
\<close>

definition parseIndexesObject :: "string option \<Rightarrow> BatchGetItemOutput \<Rightarrow> error + IIndex" where
  "parseIndexesObject env ddbResponse =
     (let indexes = defaultIndex in
      case Responses ddbResponse of
        None \<Rightarrow> Inr indexes
      | Some resp \<Rightarrow>
          bindE (getIndexTableName env) (\<lambda>t.
          bindE (find_record TAGS_ID resp t) (\<lambda>tagsRecord.
          let indexes = indexes\<lparr>tags := record_keys tagsRecord (tags indexes)\<rparr> in
          bindE (getIndexTableName env) (\<lambda>t.
          bindE (find_record PEOPLE_ID resp t) (\<lambda>peopleRecord.
          Inr (indexes\<lparr>people := record_keys peopleRecord (people indexes)\<rparr>))))))"

text \<open>
  \<^verbatim>\<open>updateCleanIndexes\<close>, lines 72-100: the table name is read while the parameters are
  built, so a missing name throws before anything is sent; each \<^verbatim>\<open>PutRequest\<close> carries a
  copy of the dictionary's contents at that moment.
\<close>

definition updateCleanIndexes :: "'db gateway \<Rightarrow> string option \<Rightarrow> heap \<Rightarrow> IIndex \<Rightarrow> 'db gstate
    \<Rightarrow> (error + response) \<times> 'db gstate" where
  "updateCleanIndexes gw env h indexObject g =
     (case getIndexTableName env of
        Inl e \<Rightarrow> (Inl e, g)
      | Inr t \<Rightarrow>
          submit gw (BatchWrite \<lparr>RequestItems =
            [(t, [\<lparr>put_id = TAGS_ID, put_indexKeys = h (tags indexObject)\<rparr>,
                  \<lparr>put_id = PEOPLE_ID, put_indexKeys = h (people indexObject)\<rparr>])]\<rparr>) g)"

section \<open>Pruning Engine\<close>

text \<open>
  One \<^verbatim>\<open>forEach\<close> of \<^verbatim>\<open>cleanZeroIndexes\<close>: \<open>src\<close> is the dictionary read
  (\<^verbatim>\<open>indexObject.people\<close>), \<open>dst\<close> the dictionary written (\<^verbatim>\<open>cleanedIndex.people\<close>), the
  keys are the snapshot \<^verbatim>\<open>Object.keys\<close> took before the loop, and the value is read from
  the heap at each step. A key of the snapshot stays in \<open>src\<close> (nothing deletes a key), so
  the last case, where JavaScript would store \<^verbatim>\<open>undefined\<close>, is never reached from
  \<open>cleanZeroIndexes\<close>; it leaves the state as it is.
\<close>

fun clean_loop :: "addr \<Rightarrow> addr \<Rightarrow> string list \<Rightarrow> heap \<times> bool \<Rightarrow> heap \<times> bool" where
  "clean_loop src dst [] (h, updateNeeded) = (h, updateNeeded)"
| "clean_loop src dst (p # ps) (h, updateNeeded) =
     (case map_of (h src) p of
        Some v \<Rightarrow>
          if v \<le> 0 then clean_loop src dst ps (h, True)
          else clean_loop src dst ps (h(dst := AList.update p v (h dst)), updateNeeded)
      | None \<Rightarrow> clean_loop src dst ps (h, updateNeeded))"

text \<open>
  \<^verbatim>\<open>cleanZeroIndexes\<close>, lines 102-126. \<^verbatim>\<open>cleanedIndex\<close> is \<^verbatim>\<open>{...defaultIndex}\<close>, so the
  dictionaries written are those of \<^const>\<open>defaultIndex\<close>. The result is the outcome (the
  cleaned index, or the error of the write-back), the flag \<^verbatim>\<open>updateNeeded\<close>, the heap and
  the gateway's state.
\<close>

definition cleanZeroIndexes :: "'db gateway \<Rightarrow> string option \<Rightarrow> IIndex \<Rightarrow> heap \<Rightarrow> 'db gstate
    \<Rightarrow> (error + IIndex) \<times> bool \<times> heap \<times> 'db gstate" where
  "cleanZeroIndexes gw env indexObject h g =
     (let cleanedIndex = defaultIndex;
          (h1, u1) = clean_loop (people indexObject) (people cleanedIndex)
                       (Object_keys (h (people indexObject))) (h, False);
          (h2, u2) = clean_loop (tags indexObject) (tags cleanedIndex)
                       (Object_keys (h1 (tags indexObject))) (h1, u1)
      in if u2 then
           (case updateCleanIndexes gw env h2 cleanedIndex g of
              (Inl e, g') \<Rightarrow> (Inl e, u2, h2, g')
            | (Inr r, g') \<Rightarrow> (Inr cleanedIndex, u2, h2, g'))
         else (Inr cleanedIndex, u2, h2, g))"

section \<open>Counter Update Engine\<close>

text \<open>
  A delta mapping is a JavaScript object whose values may be \<^verbatim>\<open>undefined\<close> (\<open>None\<close>); a
  property read gives \<^verbatim>\<open>undefined\<close> for an absent key as well.
\<close>

type_synonym IIndexUpdateDictionary = "(string \<times> int option) list"

definition js_get :: "('k \<times> 'v option) list \<Rightarrow> 'k \<Rightarrow> 'v option" where
  "js_get obj k = (case map_of obj k of Some v \<Rightarrow> v | None \<Rightarrow> None)"

text \<open>The decimal numeral that a template literal writes for an array index.\<close>

definition digit_char :: "nat \<Rightarrow> char" where
  "digit_char d = ''0123456789'' ! (d mod 10)"

fun show_nat :: "nat \<Rightarrow> string" where
  "show_nat n = (if n < 10 then [digit_char n] else show_nat (n div 10) @ [digit_char n])"

declare show_nat.simps [simp del]

fun join :: "'a list \<Rightarrow> 'a list list \<Rightarrow> 'a list" where
  "join sep [] = []"
| "join sep [x] = x"
| "join sep (x # y # ys) = x @ sep @ join sep (y # ys)"

definition validKeys_of :: "IIndexUpdateDictionary \<Rightarrow> string list" where
  "validKeys_of indexData = filter (\<lambda>k. js_get indexData k \<noteq> None) (Object_keys indexData)"

text \<open>
  The two \<^verbatim>\<open>reduce\<close> calls of lines 163-175. Each step spreads the accumulator and then
  writes the new properties. A valid key has a defined value, so the \<open>None\<close> case of the
  second is not reached from \<open>getDynamoDbUpdateItemParams\<close>.
\<close>

definition names_step :: "nat \<times> string \<Rightarrow> (string \<times> string) list \<Rightarrow> (string \<times> string) list" where
  "names_step ik accum =
     AList.update ''#indexKeysProp'' INDEX_KEYS_PROP
       (AList.update (''#'' @ show_nat (fst ik)) (snd ik) accum)"

definition values_step :: "IIndexUpdateDictionary \<Rightarrow> nat \<times> string \<Rightarrow> (string \<times> attr) list
    \<Rightarrow> (string \<times> attr) list" where
  "values_step indexData ik accum =
     (case js_get indexData (snd ik) of
        Some d \<Rightarrow> AList.update ('':'' @ show_nat (fst ik)) (N d) accum
      | None \<Rightarrow> accum)"

definition updateKeyValue :: "nat \<times> string \<Rightarrow> string" where
  "updateKeyValue ik =
     ''#indexKeysProp.#'' @ show_nat (fst ik) @ '' = if_not_exists(#indexKeysProp.#''
       @ show_nat (fst ik) @ '',:zero) + :'' @ show_nat (fst ik)"

text \<open>
  \<^verbatim>\<open>getDynamoDbUpdateItemParams\<close>, lines 148-190. \<open>timestamp\<close> is the value of
  \<^verbatim>\<open>new Date().getTime()\<close>. The argument is \<open>None\<close> when the caller passes \<^verbatim>\<open>undefined\<close>
  (a slot that the request body leaves out), on which \<^verbatim>\<open>Object.keys\<close> throws. The result
  \<open>Inr None\<close> is the \<^verbatim>\<open>null\<close> of the source.
\<close>

definition getDynamoDbUpdateItemParams :: "string option \<Rightarrow> int \<Rightarrow> string
    \<Rightarrow> IIndexUpdateDictionary option \<Rightarrow> error + UpdateItemInput option" where
  "getDynamoDbUpdateItemParams env timestamp indexId indexData' =
     (case indexData' of
        None \<Rightarrow> Inl (TypeError ''Cannot convert undefined or null to object'')
      | Some indexData \<Rightarrow>
          let validKeys = validKeys_of indexData in
          if length validKeys > 0 then
            bindE (getIndexTableName env) (\<lambda>t.
              Inr (Some \<lparr>
                ConditionExpression = None,
                ExpressionAttributeNames = fold names_step (enumerate 0 validKeys) [],
                ExpressionAttributeValues =
                  fold (values_step indexData) (enumerate 0 validKeys)
                    [('':updatedAt'', N timestamp), ('':zero'', N 0)],
                Key = indexId,
                ReturnValues = Some ''ALL_NEW'',
                TableName = t,
                UpdateExpression =
                  ''SET '' @ join '', '' (map updateKeyValue (enumerate 0 validKeys))
                    @ '', updatedAt = :updatedAt''\<rparr>))
          else Inr None)"

text \<open>
  \<^verbatim>\<open>updateAndHandleEmptyMap\<close>, lines 192-220. The \<^verbatim>\<open>catch\<close> handler runs on a rejection of
  the first update only. Inside it, the retry is the \<^verbatim>\<open>then\<close> callback of the conditional
  write, so it runs when that write is fulfilled; a rejection of the conditional write
  has no handler and becomes the result.
\<close>

definition isMissingPath :: "error \<Rightarrow> bool" where
  "isMissingPath e \<longleftrightarrow>
     err_code e = Some ''ValidationException''
     \<and> err_message e = ''The document path provided in the update expression is invalid for update''"

definition setMapParams :: "UpdateItemInput \<Rightarrow> UpdateItemInput" where
  "setMapParams ddbParams =
     \<lparr>ConditionExpression = Some ''attribute_not_exists(#indexKeysProp)'',
      ExpressionAttributeNames = [(''#indexKeysProp'', INDEX_KEYS_PROP)],
      ExpressionAttributeValues = [('':emptyMap'', M [])],
      Key = Key ddbParams,
      ReturnValues = None,
      TableName = TableName ddbParams,
      UpdateExpression = ''SET #indexKeysProp = :emptyMap''\<rparr>"

definition updateAndHandleEmptyMap :: "'db gateway \<Rightarrow> UpdateItemInput \<Rightarrow> 'db gstate
    \<Rightarrow> (error + response) \<times> 'db gstate" where
  "updateAndHandleEmptyMap gw ddbParams g =
     (case submit gw (Update ddbParams) g of
        (Inr out, g1) \<Rightarrow> (Inr out, g1)
      | (Inl e, g1) \<Rightarrow>
          if isMissingPath e then
            (case submit gw (Update (setMapParams ddbParams)) g1 of
               (Inr out, g2) \<Rightarrow> submit gw (Update ddbParams) g2
             | (Inl e2, g2) \<Rightarrow> (Inl e2, g2))
          else (Inl e, g1))"

text \<open>
  \<^verbatim>\<open>updateIndexRecord\<close>, lines 222-228. \<open>Inr None\<close> is \<^verbatim>\<open>undefined\<close>, the marker of a skipped
  slot.
\<close>

definition updateIndexRecord :: "'db gateway \<Rightarrow> string option \<Rightarrow> int \<Rightarrow> string
    \<Rightarrow> IIndexUpdateDictionary option \<Rightarrow> 'db gstate \<Rightarrow> (error + response option) \<times> 'db gstate" where
  "updateIndexRecord gw env timestamp indexId indexData g =
     (case getDynamoDbUpdateItemParams env timestamp indexId indexData of
        Inl e \<Rightarrow> (Inl e, g)
      | Inr None \<Rightarrow> (Inr None, g)
      | Inr (Some ddbParams) \<Rightarrow>
          (case updateAndHandleEmptyMap gw ddbParams g of
             (Inl e, g') \<Rightarrow> (Inl e, g')
           | (Inr out, g') \<Rightarrow> (Inr (Some out), g')))"

section \<open>Request handlers\<close>

text \<open>
  Modelled from the spec: \<^verbatim>\<open>src/types.ts\<close> and \<^verbatim>\<open>src/common/responses.ts\<close> are not among the
  sources. The request body is the spec's IndexUpdate, a pair of optional delta mappings
  under \<^verbatim>\<open>indexUpdate\<close>; the response envelope has the spec's two shapes, success with a
  payload and failure with an error.
\<close>

record IIndexUpdate =
  update_tags :: "IIndexUpdateDictionary option"
  update_people :: "IIndexUpdateDictionary option"

record IPutIndexRequest =
  indexUpdate :: "IIndexUpdate option"

record PutPayload =
  tagsUpdateResponse :: "response option"
  peopleUpdateResponse :: "response option"

datatype 'a envelope = success 'a | failure error

text \<open>
  \<^verbatim>\<open>putItem\<close>, lines 230-248, from the parsed request body on. \<open>t1\<close> and \<open>t2\<close> are the
  clock readings of the two calls. Reading \<^verbatim>\<open>.tags\<close> of an absent \<^verbatim>\<open>indexUpdate\<close> throws;
  every exception and rejection inside the \<^verbatim>\<open>try\<close> ends in the failure envelope.
\<close>

definition putItem :: "'db gateway \<Rightarrow> string option \<Rightarrow> int \<Rightarrow> int \<Rightarrow> IPutIndexRequest \<Rightarrow> 'db gstate
    \<Rightarrow> PutPayload envelope \<times> 'db gstate" where
  "putItem gw env t1 t2 requestBody g =
     (case indexUpdate requestBody of
        None \<Rightarrow> (failure (TypeError ''Cannot read property tags of undefined''), g)
      | Some u \<Rightarrow>
          (case updateIndexRecord gw env t1 TAGS_ID (update_tags u) g of
             (Inl e, g1) \<Rightarrow> (failure e, g1)
           | (Inr tagsResponse, g1) \<Rightarrow>
               (case updateIndexRecord gw env t2 PEOPLE_ID (update_people u) g1 of
                  (Inl e, g2) \<Rightarrow> (failure e, g2)
                | (Inr peopleResponse, g2) \<Rightarrow>
                    (success \<lparr>tagsUpdateResponse = tagsResponse,
                              peopleUpdateResponse = peopleResponse\<rparr>, g2))))"

section \<open>A model of the DynamoDB service\<close>

text \<open>
  Modelled from the spec: the Storage Gateway is an external service, so what a request does
  to a stored record is not in the sources. \<open>ddb\<close> is a gateway that gives the requests of
  this module the meaning the spec and the DynamoDB expression language give them: a
  \<^verbatim>\<open>SET\<close> list whose right-hand sides are a value, or \<^verbatim>\<open>if_not_exists(path, value) + value\<close>;
  the condition \<^verbatim>\<open>attribute_not_exists(name)\<close>; placeholders for names and values; a
  write to a nested path fails with the missing-path error unless the record holds a map
  there; a \<^verbatim>\<open>PutRequest\<close> replaces the record. It reads the request as the module sends
  it, expression string included. The store is one table, a record being the attributes
  beside its key. Limits of the real service (the size of an expression, names it refuses)
  are not part of the model.
\<close>

datatype token = Word string | Dot | Comma | Eq | Plus | LParen | RParen

definition flush :: "string \<Rightarrow> token list" where
  "flush w = (if w = [] then [] else [Word w])"

definition symbol :: "char \<Rightarrow> token option" where
  "symbol c =
     (if c = CHR ''.'' then Some Dot
      else if c = CHR '','' then Some Comma
      else if c = CHR ''='' then Some Eq
      else if c = CHR ''+'' then Some Plus
      else if c = CHR ''('' then Some LParen
      else if c = CHR '')'' then Some RParen
      else None)"

fun tokenize :: "string \<Rightarrow> string \<Rightarrow> token list" where
  "tokenize w [] = flush w"
| "tokenize w (c # cs) =
     (if c = CHR '' '' then flush w @ tokenize [] cs
      else case symbol c of
        Some t \<Rightarrow> flush w @ t # tokenize [] cs
      | None \<Rightarrow> tokenize (w @ [c]) cs)"

text \<open>The grammar of the expressions, on the token list.\<close>

fun parse_path :: "token list \<Rightarrow> (string list \<times> token list) option" where
  "parse_path (Word a # Dot # ts) =
     (case parse_path ts of Some (p, r) \<Rightarrow> Some (a # p, r) | None \<Rightarrow> None)"
| "parse_path (Word a # ts) = Some ([a], ts)"
| "parse_path ts = None"

datatype operand = Value string | IfNotExists "string list" string

fun parse_operand :: "token list \<Rightarrow> (operand \<times> token list) option" where
  "parse_operand (Word w # LParen # ts) =
     (if w = ''if_not_exists'' then
        (case parse_path ts of
           Some (p, Comma # Word v # RParen # r) \<Rightarrow> Some (IfNotExists p v, r)
         | _ \<Rightarrow> None)
      else None)"
| "parse_operand (Word w # ts) = (if take 1 w = '':'' then Some (Value w, ts) else None)"
| "parse_operand ts = None"

datatype rhs = Operand operand | Sum operand operand

type_synonym action = "string list \<times> rhs"

definition parse_action :: "token list \<Rightarrow> (action \<times> token list) option" where
  "parse_action ts =
     (case parse_path ts of
        Some (p, Eq # r) \<Rightarrow>
          (case parse_operand r of
             Some (a, Plus # r') \<Rightarrow>
               (case parse_operand r' of
                  Some (b, r'') \<Rightarrow> Some ((p, Sum a b), r'')
                | None \<Rightarrow> None)
           | Some (a, r') \<Rightarrow> Some ((p, Operand a), r')
           | None \<Rightarrow> None)
      | _ \<Rightarrow> None)"

lemma parse_path_shorter: "parse_path ts = Some (p, r) \<Longrightarrow> length r < length ts"
  by (induction ts arbitrary: p r rule: parse_path.induct) (auto split: option.splits)

lemma parse_operand_shorter: "parse_operand ts = Some (a, r) \<Longrightarrow> length r < length ts"
  by (induction ts rule: parse_operand.induct)
     (auto split: option.splits if_splits list.splits token.splits dest: parse_path_shorter)

lemma parse_action_shorter: "parse_action ts = Some (a, r) \<Longrightarrow> length r < length ts"
  unfolding parse_action_def
  by (auto split: option.splits list.splits token.splits
        dest!: parse_path_shorter parse_operand_shorter)

function parse_actions :: "token list \<Rightarrow> action list option" where
  "parse_actions ts =
     (case parse_action ts of
        None \<Rightarrow> None
      | Some (a, r) \<Rightarrow>
          (case r of
             [] \<Rightarrow> Some [a]
           | Comma # r' \<Rightarrow> map_option ((#) a) (parse_actions r')
           | _ \<Rightarrow> None))"
  by pat_completeness auto
termination
  by (relation "measure length") (auto dest!: parse_action_shorter)

declare parse_actions.simps [simp del]

definition parse_update :: "string \<Rightarrow> action list option" where
  "parse_update e =
     (case tokenize [] e of
        Word s # ts \<Rightarrow> if s = ''SET'' then parse_actions ts else None
      | _ \<Rightarrow> None)"

text \<open>Evaluation of an update against the stored record \<open>it\<close>.\<close>

definition validation :: "string \<Rightarrow> error" where
  "validation m = AWSError ''ValidationException'' m"

fun mapE :: "('a \<Rightarrow> error + 'b) \<Rightarrow> 'a list \<Rightarrow> error + 'b list" where
  "mapE f [] = Inr []"
| "mapE f (x # xs) = bindE (f x) (\<lambda>y. bindE (mapE f xs) (\<lambda>ys. Inr (y # ys)))"

definition resolve_name :: "(string \<times> string) list \<Rightarrow> string \<Rightarrow> error + string" where
  "resolve_name names w =
     (if take 1 w = ''#'' then
        (case map_of names w of
           Some n \<Rightarrow> Inr n
         | None \<Rightarrow> Inl (validation ''An expression attribute name used in the document path is not defined''))
      else Inr w)"

definition lookup_value :: "(string \<times> attr) list \<Rightarrow> string \<Rightarrow> error + attr" where
  "lookup_value vals v =
     (case map_of vals v of
        Some x \<Rightarrow> Inr x
      | None \<Rightarrow> Inl (validation ''An expression attribute value used in expression is not defined''))"

fun get_path :: "item \<Rightarrow> string list \<Rightarrow> attr option" where
  "get_path it [a] = map_of it a"
| "get_path it [a, b] =
     (case map_of it a of Some (M d) \<Rightarrow> map_option N (map_of d b) | _ \<Rightarrow> None)"
| "get_path it p = None"

fun eval_operand :: "(string \<times> string) list \<Rightarrow> (string \<times> attr) list \<Rightarrow> item \<Rightarrow> operand
    \<Rightarrow> error + attr" where
  "eval_operand names vals it (Value v) = lookup_value vals v"
| "eval_operand names vals it (IfNotExists p v) =
     bindE (mapE (resolve_name names) p) (\<lambda>q.
       case get_path it q of Some x \<Rightarrow> Inr x | None \<Rightarrow> lookup_value vals v)"

definition add_attr :: "attr \<Rightarrow> attr \<Rightarrow> error + attr" where
  "add_attr x y =
     (case x of
        N i \<Rightarrow> (case y of
                  N j \<Rightarrow> Inr (N (i + j))
                | M d \<Rightarrow> Inl (validation ''Incorrect operand type for operator or function''))
      | M d \<Rightarrow> Inl (validation ''Incorrect operand type for operator or function''))"

fun eval_rhs :: "(string \<times> string) list \<Rightarrow> (string \<times> attr) list \<Rightarrow> item \<Rightarrow> rhs
    \<Rightarrow> error + attr" where
  "eval_rhs names vals it (Operand a) = eval_operand names vals it a"
| "eval_rhs names vals it (Sum a b) =
     bindE (eval_operand names vals it a) (\<lambda>x.
     bindE (eval_operand names vals it b) (\<lambda>y. add_attr x y))"

definition eval_action :: "(string \<times> string) list \<Rightarrow> (string \<times> attr) list \<Rightarrow> item \<Rightarrow> action
    \<Rightarrow> error + string list \<times> attr" where
  "eval_action names vals it act =
     bindE (mapE (resolve_name names) (fst act)) (\<lambda>q.
     bindE (eval_rhs names vals it (snd act)) (\<lambda>x. Inr (q, x)))"

definition missing_path :: error where
  "missing_path = validation ''The document path provided in the update expression is invalid for update''"

fun set_path :: "string list \<Rightarrow> attr \<Rightarrow> item \<Rightarrow> error + item" where
  "set_path [a] x it = Inr (AList.update a x it)"
| "set_path [a, b] x it =
     (case map_of it a of
        Some (M d) \<Rightarrow>
          (case x of
             N i \<Rightarrow> Inr (AList.update a (M (AList.update b i d)) it)
           | M e \<Rightarrow> Inl (validation ''A map inside a map is outside this model''))
      | _ \<Rightarrow> Inl missing_path)"
| "set_path p x it = Inl missing_path"

fun apply_sets :: "(string list \<times> attr) list \<Rightarrow> item \<Rightarrow> error + item" where
  "apply_sets [] it = Inr it"
| "apply_sets (qx # qs) it = bindE (set_path (fst qx) (snd qx) it) (apply_sets qs)"

definition parse_condition :: "string \<Rightarrow> string option" where
  "parse_condition c =
     (case tokenize [] c of
        [Word f, LParen, Word a, RParen] \<Rightarrow> if f = ''attribute_not_exists'' then Some a else None
      | _ \<Rightarrow> None)"

definition check_condition :: "UpdateItemInput \<Rightarrow> item \<Rightarrow> error + unit" where
  "check_condition p it =
     (case ConditionExpression p of
        None \<Rightarrow> Inr ()
      | Some c \<Rightarrow>
          (case parse_condition c of
             None \<Rightarrow> Inl (validation ''Invalid ConditionExpression: Syntax error'')
           | Some a \<Rightarrow>
               bindE (resolve_name (ExpressionAttributeNames p) a) (\<lambda>n.
                 if map_of it n = None then Inr ()
                 else Inl (AWSError ''ConditionalCheckFailedException''
                             ''The conditional request failed''))))"

definition eval_update :: "UpdateItemInput \<Rightarrow> item \<Rightarrow> error + item" where
  "eval_update p it =
     (case parse_update (UpdateExpression p) of
        None \<Rightarrow> Inl (validation ''Invalid UpdateExpression: Syntax error'')
      | Some acts \<Rightarrow>
          bindE (mapE (eval_action (ExpressionAttributeNames p) (ExpressionAttributeValues p) it) acts)
            (\<lambda>sets.
               if distinct (map fst sets) then
                 bindE (check_condition p it) (\<lambda>u. apply_sets sets it)
               else Inl (validation
                 ''Invalid UpdateExpression: Two document paths overlap with each other'')))"

type_synonym table = "string \<rightharpoonup> item"

definition put_item :: "PutRequest \<Rightarrow> table \<Rightarrow> table" where
  "put_item r tbl = tbl(put_id r \<mapsto> [(INDEX_KEYS_PROP, M (put_indexKeys r))])"

fun ddb :: "table gateway" where
  "ddb (Update p) tbl =
     (case eval_update p (case tbl (Key p) of Some it \<Rightarrow> it | None \<Rightarrow> []) of
        Inl e \<Rightarrow> (Inl e, tbl)
      | Inr new \<Rightarrow>
          (Inr (UpdateItemOutput (if ReturnValues p = Some ''ALL_NEW'' then Some new else None)),
           tbl(Key p \<mapsto> new)))"
| "ddb (BatchWrite b) tbl =
     (Inr BatchWriteItemOutput, fold put_item (concat (map snd (RequestItems b))) tbl)"

text \<open>Another client of the same table, whose requests reach the store between ours.\<close>

fun racing :: "(table \<times> request list) gateway" where
  "racing req (tbl, []) = (case ddb req tbl of (r, tbl1) \<Rightarrow> (r, (tbl1, [])))"
| "racing req (tbl, other # others) =
     (case ddb req tbl of (r, tbl1) \<Rightarrow> (r, (snd (ddb other tbl1), others)))"

text \<open>A store that rejects every request as throttled, counting the requests it saw.\<close>

definition throttled :: "nat gateway" where
  "throttled req n =
     (Inl (AWSError ''ProvisionedThroughputExceededException''
        ''The level of configured provisioned throughput for the table was exceeded''), Suc n)"

section \<open>What pruning keeps and what it drops\<close>

text \<open>
  The entries of a dictionary with a value above zero, as a map, and the keys whose value
  is zero or less.
\<close>

definition positives :: "IIndexDictionary \<Rightarrow> (string \<rightharpoonup> int)" where
  "positives d =
     (\<lambda>k. case map_of d k of Some v \<Rightarrow> if 0 < v then Some v else None | None \<Rightarrow> None)"

definition dropped_keys :: "IIndexDictionary \<Rightarrow> string list" where
  "dropped_keys d =
     filter (\<lambda>k. case map_of d k of Some v \<Rightarrow> v \<le> 0 | None \<Rightarrow> False) (Object_keys d)"

text \<open>The contents of the two dictionaries of an index, \<^verbatim>\<open>people\<close> first.\<close>

definition snapshot :: "heap \<Rightarrow> IIndex \<Rightarrow> IIndexDictionary \<times> IIndexDictionary" where
  "snapshot h i = (h (people i), h (tags i))"

text \<open>
  The index of the repository's test (\<^verbatim>\<open>cleanZeroIndexes - removes any negative or zero
  values\<close>): two dictionaries of the caller's own, in the heap of a freshly loaded module;
  and an empty table behind the gateway.
\<close>

definition example_heap :: heap where
  "example_heap = fresh_heap
     (2 := [(''bob'', 1), (''cynthia'', 0)], 3 := [(''yellow'', - 1), (''red'', 0)])"

definition example_index :: IIndex where
  "example_index = \<lparr>people = 2, tags = 3\<rparr>"

definition empty_store :: "table gstate" where
  "empty_store = \<lparr>db = Map.empty, sent = []\<rparr>"

text \<open>
  The deltas \<^verbatim>\<open>{a: 3, b: -1}\<close> of the spec's example, and the request that
  \<^verbatim>\<open>getDynamoDbUpdateItemParams\<close> builds from them for the slot \<^verbatim>\<open>tags\<close>.
\<close>

definition example_deltas :: IIndexUpdateDictionary where
  "example_deltas = [(''a'', Some 3), (''b'', Some (- 1))]"

definition example_params :: UpdateItemInput where
  "example_params =
     \<lparr>ConditionExpression = None,
      ExpressionAttributeNames = [(''#0'', ''a''), (''#indexKeysProp'', ''indexKeys''), (''#1'', ''b'')],
      ExpressionAttributeValues =
        [('':updatedAt'', N 1700000000000), ('':zero'', N 0), ('':0'', N 3), ('':1'', N (- 1))],
      Key = ''tags'',
      ReturnValues = Some ''ALL_NEW'',
      TableName = ''indexes'',
      UpdateExpression = ''SET #indexKeysProp.#0 = if_not_exists(#indexKeysProp.#0,:zero) + :0, #indexKeysProp.#1 = if_not_exists(#indexKeysProp.#1,:zero) + :1, updatedAt = :updatedAt''\<rparr>"

text \<open>The definitions a concrete run unfolds.\<close>

lemmas run_simps = cleanZeroIndexes_def updateCleanIndexes_def getIndexTableName_def submit_def
  Object_keys_def defaultIndex_def example_heap_def example_index_def fresh_heap_def empty_store_def
  put_item_def TAGS_ID_def PEOPLE_ID_def INDEX_KEYS_PROP_def Let_def

section \<open>The pruning loops\<close>

text \<open>
  One loop adds the positive entries of \<open>src\<close> under the snapshot's keys to \<open>dst\<close>, leaves
  every other dictionary (and \<open>src\<close>) as it was, and raises the flag exactly when a value
  of zero or less is met.
\<close>

lemma clean_loop_spec:
  "clean_loop src dst ks (h, u) = (h', u') \<Longrightarrow>
     map_of (h' dst) = map_of (h dst) ++ (positives (h src) |` set ks)
     \<and> (\<forall>a. a \<noteq> dst \<longrightarrow> h' a = h a)
     \<and> h' src = h src
     \<and> (u' \<longleftrightarrow> u \<or> (\<exists>k\<in>set ks. \<exists>v. map_of (h src) k = Some v \<and> v \<le> 0))"
proof (induction ks arbitrary: h u)
  case Nil
  then show ?case by simp
next
  case (Cons p ps)
  show ?case
  proof (cases "map_of (h src) p")
    case None
    with Cons.prems have "clean_loop src dst ps (h, u) = (h', u')" by simp
    from Cons.IH[OF this] None show ?thesis
      by (auto simp: positives_def restrict_map_def map_add_def fun_eq_iff split: option.splits)
  next
    case (Some v)
    show ?thesis
    proof (cases "v \<le> 0")
      case True
      with Some Cons.prems have "clean_loop src dst ps (h, True) = (h', u')" by simp
      from Cons.IH[OF this] Some True show ?thesis
        by (auto simp: positives_def restrict_map_def map_add_def fun_eq_iff split: option.splits)
    next
      case False
      let ?h2 = "h(dst := AList.update p v (h dst))"
      have same: "?h2 src = h src"
        using Some by (cases "src = dst") (simp_all add: update_triv)
      from False Some Cons.prems have "clean_loop src dst ps (?h2, u) = (h', u')" by simp
      from Cons.IH[OF this] have
        a: "map_of (h' dst) = map_of (?h2 dst) ++ (positives (?h2 src) |` set ps)"
        and b: "\<forall>a. a \<noteq> dst \<longrightarrow> h' a = ?h2 a"
        and c: "h' src = ?h2 src"
        and d: "u' \<longleftrightarrow> u \<or> (\<exists>k\<in>set ps. \<exists>v. map_of (?h2 src) k = Some v \<and> v \<le> 0)"
        by blast+
      have "map_of (h' dst) = map_of (h dst) ++ (positives (h src) |` set (p # ps))"
        unfolding a same using Some False
        by (auto simp: update_conv' positives_def restrict_map_def map_add_def fun_eq_iff split: option.splits)
      moreover have "\<forall>a. a \<noteq> dst \<longrightarrow> h' a = h a" using b by simp
      moreover have "h' src = h src" using c same by simp
      moreover have "u' \<longleftrightarrow> u \<or> (\<exists>k\<in>set (p # ps). \<exists>v. map_of (h src) k = Some v \<and> v \<le> 0)"
        using d same Some False by auto
      ultimately show ?thesis by blast
    qed
  qed
qed


lemma positives_keys: "positives d |` set (Object_keys d) = positives d"
  by (auto simp: positives_def restrict_map_def Object_keys_def fun_eq_iff
      split: option.splits dest: map_of_SomeD intro: rev_image_eqI)

lemma dropped_keys_iff:
  "dropped_keys d \<noteq> [] \<longleftrightarrow> (\<exists>k\<in>set (Object_keys d). \<exists>v. map_of d k = Some v \<and> v \<le> 0)"
  by (auto simp: dropped_keys_def filter_empty_conv split: option.splits)

lemma cleanZeroIndexes_heap:
  assumes nocross: "tags indexObject \<noteq> people defaultIndex"
    and run: "cleanZeroIndexes gw env indexObject h g = (r, u, h', g')"
  shows "map_of (h' (people defaultIndex)) =
           map_of (h (people defaultIndex)) ++ positives (h (people indexObject))"
    and "map_of (h' (tags defaultIndex)) =
           map_of (h (tags defaultIndex)) ++ positives (h (tags indexObject))"
    and "\<forall>a. a \<noteq> people defaultIndex \<and> a \<noteq> tags defaultIndex \<longrightarrow> h' a = h a"
    and "u \<longleftrightarrow> dropped_keys (h (people indexObject)) \<noteq> [] \<or> dropped_keys (h (tags indexObject)) \<noteq> []"
proof -
  obtain h1 u1 where l1: "clean_loop (people indexObject) (people defaultIndex)
      (Object_keys (h (people indexObject))) (h, False) = (h1, u1)"
    by (cases "clean_loop (people indexObject) (people defaultIndex)
      (Object_keys (h (people indexObject))) (h, False)") auto
  obtain h2 u2 where l2: "clean_loop (tags indexObject) (tags defaultIndex)
      (Object_keys (h1 (tags indexObject))) (h1, u1) = (h2, u2)"
    by (cases "clean_loop (tags indexObject) (tags defaultIndex)
      (Object_keys (h1 (tags indexObject))) (h1, u1)") auto
  from run l1 l2 have hu: "h' = h2" "u = u2"
    by (auto simp: cleanZeroIndexes_def Let_def split: if_splits prod.splits sum.splits)
  note s1 = clean_loop_spec[OF l1] and s2 = clean_loop_spec[OF l2]
  have ne: "people defaultIndex \<noteq> tags defaultIndex" by (simp add: defaultIndex_def)
  have t1: "h1 (tags indexObject) = h (tags indexObject)" using s1 nocross by simp
  have d1: "h1 (tags defaultIndex) = h (tags defaultIndex)" using s1 ne by metis
  have p2: "h2 (people defaultIndex) = h1 (people defaultIndex)" using s2 ne by metis
  show "map_of (h' (people defaultIndex)) =
           map_of (h (people defaultIndex)) ++ positives (h (people indexObject))"
    using s1 p2 hu by (simp add: positives_keys)
  show "map_of (h' (tags defaultIndex)) =
           map_of (h (tags defaultIndex)) ++ positives (h (tags indexObject))"
    using s2 t1 d1 hu by (simp add: positives_keys)
  show "\<forall>a. a \<noteq> people defaultIndex \<and> a \<noteq> tags defaultIndex \<longrightarrow> h' a = h a"
    using s1 s2 hu by simp
  show "u \<longleftrightarrow> dropped_keys (h (people indexObject)) \<noteq> [] \<or> dropped_keys (h (tags indexObject)) \<noteq> []"
    using s1 s2 t1 hu by (simp add: dropped_keys_iff)
qed

lemma cleanZeroIndexes_outcome:
  assumes run: "cleanZeroIndexes gw env indexObject h g = (r, u, h', g')"
  shows "if u then
           (case getIndexTableName env of
              Inl e \<Rightarrow> r = Inl e \<and> g' = g
            | Inr t \<Rightarrow>
                (case submit gw (BatchWrite \<lparr>RequestItems =
                    [(t, [\<lparr>put_id = TAGS_ID, put_indexKeys = h' (tags defaultIndex)\<rparr>,
                          \<lparr>put_id = PEOPLE_ID, put_indexKeys = h' (people defaultIndex)\<rparr>])]\<rparr>) g of
                   (Inl e, g1) \<Rightarrow> r = Inl e \<and> g' = g1
                 | (Inr x, g1) \<Rightarrow> r = Inr defaultIndex \<and> g' = g1))
         else r = Inr defaultIndex \<and> g' = g"
  using run
  by (auto simp: cleanZeroIndexes_def updateCleanIndexes_def Let_def
      split: if_splits prod.splits sum.splits)

section \<open>Claims about the Pruning Engine\<close>

text \<open>
  Claim C9. \<^verbatim>\<open>cleanZeroIndexes\<close> spreads the module-level \<^verbatim>\<open>defaultIndex\<close> shallowly, so the
  index it returns holds the two dictionaries of \<^verbatim>\<open>defaultIndex\<close> themselves. Each call
  writes the positive entries of its input into those two dictionaries, on top of what
  they held before, so entries kept by an earlier call are returned again, by
  \<^verbatim>\<open>cleanZeroIndexes\<close> and by \<^verbatim>\<open>parseIndexesObject\<close> (which hands out the same dictionaries
  for a slot without a record). The result is exactly the positive entries of the input
  while the dictionaries of \<^verbatim>\<open>defaultIndex\<close> are still empty. The input's \<^verbatim>\<open>tags\<close>
  dictionary is taken not to be the \<^verbatim>\<open>people\<close> dictionary of \<^verbatim>\<open>defaultIndex\<close>: the first loop
  would change it before the second reads it.
\<close>

theorem cleanZeroIndexes_shares_defaultIndex:
  assumes "tags indexObject \<noteq> people defaultIndex"
  shows "case cleanZeroIndexes gw env indexObject h g of (r, u, h', g') \<Rightarrow>
      (\<forall>cleaned. r = Inr cleaned \<longrightarrow> cleaned = defaultIndex)
    \<and> map_of (h' (people defaultIndex)) =
        map_of (h (people defaultIndex)) ++ positives (h (people indexObject))
    \<and> map_of (h' (tags defaultIndex)) =
        map_of (h (tags defaultIndex)) ++ positives (h (tags indexObject))
    \<and> (h (people defaultIndex) = [] \<longrightarrow>
        map_of (h' (people defaultIndex)) = positives (h (people indexObject)))
    \<and> (h (tags defaultIndex) = [] \<longrightarrow>
        map_of (h' (tags defaultIndex)) = positives (h (tags indexObject)))
    \<and> parseIndexesObject env \<lparr>Responses = None\<rparr> = Inr defaultIndex"
proof -
  obtain r u h' g' where run: "cleanZeroIndexes gw env indexObject h g = (r, u, h', g')"
    by (cases "cleanZeroIndexes gw env indexObject h g") auto
  have same: "\<forall>cleaned. r = Inr cleaned \<longrightarrow> cleaned = defaultIndex"
    using run
    by (auto simp: cleanZeroIndexes_def Let_def split: if_splits sum.splits prod.splits)
  have parse: "parseIndexesObject env \<lparr>Responses = None\<rparr> = Inr defaultIndex"
    by (simp add: parseIndexesObject_def)
  show ?thesis
    using cleanZeroIndexes_heap(1,2)[OF assms run] same parse by (simp add: run)
qed

theorem cleanZeroIndexes_shares_defaultIndex_witness:
  "tags example_index \<noteq> people defaultIndex
   \<and> tags \<lparr>people = 4, tags = 5\<rparr> \<noteq> people defaultIndex
   \<and> example_heap (people defaultIndex) = [] \<and> example_heap (tags defaultIndex) = []
   \<and> (case cleanZeroIndexes ddb (Some ''indexes'') example_index example_heap empty_store of
         (r, u, h', g') \<Rightarrow>
           r = Inr defaultIndex
           \<and> map_of (h' (people defaultIndex)) = positives (example_heap (people example_index))
           \<and> map_of (h' (tags defaultIndex)) = positives (example_heap (tags example_index))
           \<and> snapshot h' defaultIndex = ([(''bob'', 1)], [])
           \<and> (case cleanZeroIndexes ddb (Some ''indexes'') \<lparr>people = 4, tags = 5\<rparr> h' g' of
                 (r2, u2, h2, g2) \<Rightarrow>
                   r2 = Inr defaultIndex \<and> \<not> u2
                   \<and> snapshot h' \<lparr>people = 4, tags = 5\<rparr> = ([], [])
                   \<and> map_of (h2 (people defaultIndex)) = [''bob'' \<mapsto> 1]
                   \<and> snapshot h2 defaultIndex = ([(''bob'', 1)], [])))"
  using cleanZeroIndexes_shares_defaultIndex
    [where indexObject = example_index and gw = ddb and env = "Some ''indexes''"
       and h = example_heap and g = empty_store]
    cleanZeroIndexes_shares_defaultIndex
    [where indexObject = "\<lparr>people = 4, tags = 5\<rparr>" and gw = ddb and env = "Some ''indexes''"
       and h = "example_heap(0 := [(''bob'', 1)])"]
  by (simp add: run_simps snapshot_def positives_def fun_eq_iff)

text \<open>
  What the write-back does in every state. When no entry is dropped, \<^verbatim>\<open>cleanZeroIndexes\<close>
  returns the cleaned index and sends nothing to the store. When an entry is dropped, it
  sends one batch write with one \<^verbatim>\<open>PutRequest\<close> per slot, each holding the whole dictionary
  of that slot in the cleaned index, and returns the cleaned index once the store has
  accepted the write (a rejected write rejects the call, and a missing table name throws
  before anything is sent). The dictionaries written are those of \<^verbatim>\<open>defaultIndex\<close>: the
  positive entries of the input on top of what they held before the call.
\<close>

lemma cleanZeroIndexes_write_back:
  assumes "tags indexObject \<noteq> people defaultIndex"
  shows "case cleanZeroIndexes gw env indexObject h g of (r, u, h', g') \<Rightarrow>
      (u \<longleftrightarrow> dropped_keys (h (people indexObject)) \<noteq> [] \<or> dropped_keys (h (tags indexObject)) \<noteq> [])
    \<and> (if u then
          (case getIndexTableName env of
             Inl e \<Rightarrow> r = Inl e \<and> g' = g
           | Inr t \<Rightarrow>
               (case gw (BatchWrite \<lparr>RequestItems =
                    [(t, [\<lparr>put_id = TAGS_ID, put_indexKeys = h' (tags defaultIndex)\<rparr>,
                          \<lparr>put_id = PEOPLE_ID, put_indexKeys = h' (people defaultIndex)\<rparr>])]\<rparr>) (db g) of
                  (w, d) \<Rightarrow>
                    g' = \<lparr>db = d, sent = sent g @ [BatchWrite \<lparr>RequestItems =
                      [(t, [\<lparr>put_id = TAGS_ID, put_indexKeys = h' (tags defaultIndex)\<rparr>,
                            \<lparr>put_id = PEOPLE_ID, put_indexKeys = h' (people defaultIndex)\<rparr>])]\<rparr>]\<rparr>
                    \<and> (case w of Inl e \<Rightarrow> r = Inl e | Inr x \<Rightarrow> r = Inr defaultIndex)))
        else r = Inr defaultIndex \<and> g' = g)
    \<and> map_of (h' (people defaultIndex)) =
        map_of (h (people defaultIndex)) ++ positives (h (people indexObject))
    \<and> map_of (h' (tags defaultIndex)) =
        map_of (h (tags defaultIndex)) ++ positives (h (tags indexObject))"
proof -
  obtain r u h' g' where run: "cleanZeroIndexes gw env indexObject h g = (r, u, h', g')"
    by (cases "cleanZeroIndexes gw env indexObject h g") auto
  show ?thesis
    using cleanZeroIndexes_heap(1,2,4)[OF assms run] cleanZeroIndexes_outcome[OF run]
    by (auto simp: run submit_def split: sum.splits prod.splits if_splits)
qed

lemma cleanZeroIndexes_write_back_example:
  "tags example_index \<noteq> people defaultIndex
   \<and> dropped_keys (example_heap (people example_index)) = [''cynthia'']
   \<and> dropped_keys (example_heap (tags example_index)) = [''yellow'', ''red'']
   \<and> (case cleanZeroIndexes ddb (Some ''indexes'') example_index example_heap empty_store of
         (r, u, h', g') \<Rightarrow>
           r = Inr defaultIndex \<and> u
           \<and> snapshot h' defaultIndex = ([(''bob'', 1)], [])
           \<and> sent g' = [BatchWrite \<lparr>RequestItems = [(''indexes'',
                 [\<lparr>put_id = ''tags'', put_indexKeys = []\<rparr>,
                  \<lparr>put_id = ''people'', put_indexKeys = [(''bob'', 1)]\<rparr>])]\<rparr>]
           \<and> db g' ''people'' = Some [(''indexKeys'', M [(''bob'', 1)])]
           \<and> db g' ''tags'' = Some [(''indexKeys'', M [])])
   \<and> dropped_keys [(''bob'', 1)] = [] \<and> dropped_keys [(''red'', 2)] = []
   \<and> (case cleanZeroIndexes ddb (Some ''indexes'') example_index
           (fresh_heap(2 := [(''bob'', 1)], 3 := [(''red'', 2)])) empty_store of
         (r, u, h', g') \<Rightarrow>
           r = Inr defaultIndex \<and> \<not> u \<and> g' = empty_store
           \<and> snapshot h' defaultIndex = ([(''bob'', 1)], [(''red'', 2)]))"
  using cleanZeroIndexes_write_back
    [where indexObject = example_index and gw = ddb and env = "Some ''indexes''"
       and h = example_heap and g = empty_store]
    cleanZeroIndexes_write_back
    [where indexObject = example_index and gw = ddb and env = "Some ''indexes''"
       and h = "fresh_heap(2 := [(''bob'', 1)], 3 := [(''red'', 2)])" and g = empty_store]
  by (simp add: run_simps snapshot_def dropped_keys_def positives_def fun_eq_iff)

text \<open>
  Claim C2, on the code. The index returned by a second call in the same process holds an
  entry that is not in its input: the first call left \<^verbatim>\<open>bob: 1\<close> in the \<^verbatim>\<open>people\<close> dictionary
  of \<^verbatim>\<open>defaultIndex\<close>; the second call is given \<^verbatim>\<open>people = {bob: 0}\<close>, drops that entry, and
  still returns and writes back \<^verbatim>\<open>people = {bob: 1}\<close>.
\<close>

theorem cleanZeroIndexes_second_call_returns_old_entry:
  "case cleanZeroIndexes ddb (Some ''indexes'') example_index example_heap empty_store of
     (r1, u1, h1, g1) \<Rightarrow>
       (case cleanZeroIndexes ddb (Some ''indexes'') \<lparr>people = 4, tags = 5\<rparr>
               (h1(4 := [(''bob'', 0)], 5 := [])) g1 of
          (r2, u2, h2, g2) \<Rightarrow>
            r1 = Inr defaultIndex \<and> snapshot h1 defaultIndex = ([(''bob'', 1)], [])
            \<and> r2 = Inr defaultIndex \<and> u2
            \<and> dropped_keys [(''bob'', 0)] = [''bob'']
            \<and> snapshot h2 defaultIndex = ([(''bob'', 1)], [])
            \<and> db g2 ''people'' = Some [(''indexKeys'', M [(''bob'', 1)])])"
  by (simp add: run_simps snapshot_def dropped_keys_def)

text \<open>
  Claim C3, on the code. What a second call in the same process persists is not the pruned
  snapshot of its input: given \<^verbatim>\<open>people = {bob: 0}\<close> and \<^verbatim>\<open>tags = {}\<close>, whose pruned snapshot
  is empty in both slots, the call drops \<^verbatim>\<open>bob\<close> and sends a batch write whose \<^verbatim>\<open>PutRequest\<close>
  for \<^verbatim>\<open>people\<close> carries \<^verbatim>\<open>{bob: 1}\<close>, the entry that the first call left in the \<^verbatim>\<open>people\<close>
  dictionary of \<^verbatim>\<open>defaultIndex\<close>.
\<close>

theorem cleanZeroIndexes_write_back_carries_old_entry:
  "case cleanZeroIndexes ddb (Some ''indexes'') example_index example_heap empty_store of
     (r1, u1, h1, g1) \<Rightarrow>
       (case cleanZeroIndexes ddb (Some ''indexes'') \<lparr>people = 4, tags = 5\<rparr>
               (h1(4 := [(''bob'', 0)], 5 := [])) g1 of
          (r2, u2, h2, g2) \<Rightarrow>
            snapshot (h1(4 := [(''bob'', 0)], 5 := [])) \<lparr>people = 4, tags = 5\<rparr>
              = ([(''bob'', 0)], [])
            \<and> positives [(''bob'', 0)] = Map.empty
            \<and> u2
            \<and> sent g2 = sent g1 @
                [BatchWrite \<lparr>RequestItems = [(''indexes'',
                   [\<lparr>put_id = ''tags'', put_indexKeys = []\<rparr>,
                    \<lparr>put_id = ''people'', put_indexKeys = [(''bob'', 1)]\<rparr>])]\<rparr>])"
  by (simp add: run_simps snapshot_def positives_def fun_eq_iff)

section \<open>Claims about the Index Record Codec\<close>

text \<open>
  Claim C5, on the code. With no record for \<^verbatim>\<open>people\<close> and the record
  \<^verbatim>\<open>{id: "tags", indexKeys: {red: 2}}\<close>, \<^verbatim>\<open>parseIndexesObject\<close> returns the \<^verbatim>\<open>people\<close>
  dictionary of \<^verbatim>\<open>defaultIndex\<close> and the record's dictionary. In a freshly loaded module
  that is \<^verbatim>\<open>{people: {}, tags: {red: 2}}\<close>; after one \<^verbatim>\<open>cleanZeroIndexes\<close> call on the test's
  index it is \<^verbatim>\<open>{people: {bob: 1}, tags: {red: 2}}\<close>.
\<close>

theorem parseIndexesObject_returns_old_entry:
  "parseIndexesObject (Some ''indexes'')
     \<lparr>Responses = Some [(''indexes'', [\<lparr>item_id = ''tags'', item_indexKeys = Some 6\<rparr>])]\<rparr>
     = Inr \<lparr>people = people defaultIndex, tags = 6\<rparr>
   \<and> snapshot (fresh_heap(6 := [(''red'', 2)])) \<lparr>people = people defaultIndex, tags = 6\<rparr>
       = ([], [(''red'', 2)])
   \<and> (case cleanZeroIndexes ddb (Some ''indexes'') example_index example_heap empty_store of
         (r1, u1, h1, g1) \<Rightarrow>
           snapshot (h1(6 := [(''red'', 2)])) \<lparr>people = people defaultIndex, tags = 6\<rparr>
             = ([(''bob'', 1)], [(''red'', 2)]))"
  by (simp add: run_simps snapshot_def parseIndexesObject_def find_record_def record_keys_def)

section \<open>Concrete runs of the update path\<close>

lemma show_nat_0: "show_nat 0 = ''0''" by (simp add: show_nat.simps digit_char_def)
lemma show_nat_1: "show_nat (Suc 0) = ''1''" by (simp add: show_nat.simps digit_char_def)

lemma getDynamoDbUpdateItemParams_example:
  "getDynamoDbUpdateItemParams (Some ''indexes'') 1700000000000 TAGS_ID (Some example_deltas)
     = Inr (Some example_params)"
  by (simp add: getDynamoDbUpdateItemParams_def example_deltas_def example_params_def
      validKeys_of_def Object_keys_def js_get_def getIndexTableName_def enumerate_eq_zip
      names_step_def values_step_def updateKeyValue_def show_nat_0 show_nat_1 upt_rec
      TAGS_ID_def INDEX_KEYS_PROP_def)

lemmas ddb_simps = eval_update_def parse_update_def parse_actions.simps parse_action_def
  check_condition_def parse_condition_def eval_action_def resolve_name_def lookup_value_def
  add_attr_def missing_path_def validation_def flush_def symbol_def

lemma ddb_example_missing:
  "ddb (Update example_params) Map.empty =
     (Inl (AWSError ''ValidationException''
        ''The document path provided in the update expression is invalid for update''), Map.empty)"
  by (simp add: example_params_def ddb_simps)

lemma ddb_setMap_empty:
  "ddb (Update (setMapParams example_params)) Map.empty =
     (Inr (UpdateItemOutput None), [''tags'' \<mapsto> [(''indexKeys'', M [])]])"
  by (simp add: example_params_def setMapParams_def ddb_simps INDEX_KEYS_PROP_def)

lemma ddb_setMap_exists:
  "ddb (Update (setMapParams example_params)) [''tags'' \<mapsto> [(''indexKeys'', M [])]] =
     (Inl (AWSError ''ConditionalCheckFailedException'' ''The conditional request failed''),
      [''tags'' \<mapsto> [(''indexKeys'', M [])]])"
  by (simp add: example_params_def setMapParams_def ddb_simps INDEX_KEYS_PROP_def)

lemma ddb_example_retry:
  "ddb (Update example_params) [''tags'' \<mapsto> [(''indexKeys'', M [])]] =
     (Inr (UpdateItemOutput (Some [(''indexKeys'', M [(''a'', 3), (''b'', - 1)]),
                                   (''updatedAt'', N 1700000000000)])),
      [''tags'' \<mapsto> [(''indexKeys'', M [(''a'', 3), (''b'', - 1)]),
                     (''updatedAt'', N 1700000000000)]])"
  by (simp add: example_params_def ddb_simps)

lemma updateAndHandleEmptyMap_cases:
  "updateAndHandleEmptyMap gw p g =
     (case gw (Update p) (db g) of
        (Inr out, d1) \<Rightarrow> (Inr out, \<lparr>db = d1, sent = sent g @ [Update p]\<rparr>)
      | (Inl e, d1) \<Rightarrow>
          if isMissingPath e then
            (case gw (Update (setMapParams p)) d1 of
               (Inr out, d2) \<Rightarrow>
                 (case gw (Update p) d2 of
                    (r, d3) \<Rightarrow>
                      (r, \<lparr>db = d3, sent = sent g @ [Update p, Update (setMapParams p), Update p]\<rparr>))
             | (Inl e2, d2) \<Rightarrow>
                 (Inl e2, \<lparr>db = d2, sent = sent g @ [Update p, Update (setMapParams p)]\<rparr>))
          else (Inl e, \<lparr>db = d1, sent = sent g @ [Update p]\<rparr>))"
  by (simp add: updateAndHandleEmptyMap_def submit_def split: prod.splits sum.splits)

section \<open>Claims about the Counter Update Engine\<close>

text \<open>
  Claim C8. When the first submission of the increment fails with an error that is not the
  missing-path one (code \<^verbatim>\<open>ValidationException\<close> with the exact message),
  \<^verbatim>\<open>updateAndHandleEmptyMap\<close> sends nothing further, neither the initialising write nor a
  retry, and rejects with that same error.
\<close>

theorem updateAndHandleEmptyMap_other_failure:
  assumes "gw (Update ddbParams) (db g) = (Inl e, d)"
    and "\<not> isMissingPath e"
  shows "updateAndHandleEmptyMap gw ddbParams g =
           (Inl e, \<lparr>db = d, sent = sent g @ [Update ddbParams]\<rparr>)"
  using assms by (simp add: updateAndHandleEmptyMap_cases)

theorem updateAndHandleEmptyMap_other_failure_witness:
  "throttled (Update example_params) (db \<lparr>db = 0, sent = []\<rparr>) =
     (Inl (AWSError ''ProvisionedThroughputExceededException''
        ''The level of configured provisioned throughput for the table was exceeded''), 1)
   \<and> \<not> isMissingPath (AWSError ''ProvisionedThroughputExceededException''
        ''The level of configured provisioned throughput for the table was exceeded'')
   \<and> updateAndHandleEmptyMap throttled example_params \<lparr>db = 0, sent = []\<rparr> =
       (Inl (AWSError ''ProvisionedThroughputExceededException''
          ''The level of configured provisioned throughput for the table was exceeded''),
        \<lparr>db = 1, sent = [Update example_params]\<rparr>)"
  using updateAndHandleEmptyMap_other_failure
    [where gw = throttled and ddbParams = example_params and g = "\<lparr>db = 0, sent = []\<rparr>"
       and d = 1
       and e = "AWSError ''ProvisionedThroughputExceededException''
        ''The level of configured provisioned throughput for the table was exceeded''"]
  by (simp add: throttled_def isMissingPath_def)

text \<open>
  Claim C1, as amended. When the first submission fails with the missing-path error,
  \<^verbatim>\<open>updateAndHandleEmptyMap\<close> sends the conditional write that sets \<^verbatim>\<open>indexKeys\<close> to the empty
  map under \<^verbatim>\<open>attribute_not_exists\<close>. If that write succeeds, the original increment is
  submitted once more and its outcome is the result. If that write fails, for whatever
  reason, there is no retry and its error is the result.
\<close>

theorem updateAndHandleEmptyMap_bootstrap:
  assumes "gw (Update ddbParams) (db g) = (Inl e, d')"
    and "isMissingPath e"
  shows "(case gw (Update (setMapParams ddbParams)) d' of
            (Inr out, d2) \<Rightarrow>
              (case gw (Update ddbParams) d2 of
                 (r, d3) \<Rightarrow>
                   updateAndHandleEmptyMap gw ddbParams g =
                     (r, \<lparr>db = d3, sent = sent g @
                        [Update ddbParams, Update (setMapParams ddbParams), Update ddbParams]\<rparr>))
          | (Inl e2, d2) \<Rightarrow>
              updateAndHandleEmptyMap gw ddbParams g =
                (Inl e2, \<lparr>db = d2, sent = sent g @
                   [Update ddbParams, Update (setMapParams ddbParams)]\<rparr>))
       \<and> ConditionExpression (setMapParams ddbParams) = Some ''attribute_not_exists(#indexKeysProp)''
       \<and> UpdateExpression (setMapParams ddbParams) = ''SET #indexKeysProp = :emptyMap''
       \<and> ExpressionAttributeNames (setMapParams ddbParams) = [(''#indexKeysProp'', INDEX_KEYS_PROP)]
       \<and> ExpressionAttributeValues (setMapParams ddbParams) = [('':emptyMap'', M [])]
       \<and> Key (setMapParams ddbParams) = Key ddbParams
       \<and> TableName (setMapParams ddbParams) = TableName ddbParams"
  using assms
  by (simp add: updateAndHandleEmptyMap_cases setMapParams_def split: prod.splits sum.splits)

theorem updateAndHandleEmptyMap_bootstrap_witness:
  "ddb (Update example_params) (db empty_store) =
     (Inl (AWSError ''ValidationException''
        ''The document path provided in the update expression is invalid for update''), Map.empty)
   \<and> isMissingPath (AWSError ''ValidationException''
        ''The document path provided in the update expression is invalid for update'')
   \<and> updateAndHandleEmptyMap ddb example_params empty_store =
       (Inr (UpdateItemOutput (Some [(''indexKeys'', M [(''a'', 3), (''b'', - 1)]),
                                     (''updatedAt'', N 1700000000000)])),
        \<lparr>db = [''tags'' \<mapsto> [(''indexKeys'', M [(''a'', 3), (''b'', - 1)]),
                              (''updatedAt'', N 1700000000000)]],
         sent = [Update example_params, Update (setMapParams example_params),
                 Update example_params]\<rparr>)"
  using updateAndHandleEmptyMap_bootstrap
    [where gw = ddb and ddbParams = example_params and g = empty_store and d' = Map.empty
       and e = "AWSError ''ValidationException''
        ''The document path provided in the update expression is invalid for update''"]
  by (simp add: empty_store_def isMissingPath_def ddb_example_missing ddb_setMap_empty
      ddb_example_retry updateAndHandleEmptyMap_cases del: ddb.simps)

text \<open>
  Claim C1 as stated fails: the retry does not happen when the conditional write fails
  because the mapping already exists. Two first writers race for the empty slot \<^verbatim>\<open>tags\<close>:
  our increment fails with the missing-path error, the other writer's initialising write
  lands, ours is then refused by its condition, and the call ends with that refusal after
  two requests.
\<close>

theorem updateAndHandleEmptyMap_no_retry_counterexample:
  "ddb (Update example_params) Map.empty =
     (Inl (AWSError ''ValidationException''
        ''The document path provided in the update expression is invalid for update''), Map.empty)
   \<and> updateAndHandleEmptyMap racing example_params
         \<lparr>db = (Map.empty, [Update (setMapParams example_params)]), sent = []\<rparr> =
       (Inl (AWSError ''ConditionalCheckFailedException'' ''The conditional request failed''),
        \<lparr>db = ([''tags'' \<mapsto> [(''indexKeys'', M [])]], []),
         sent = [Update example_params, Update (setMapParams example_params)]\<rparr>)"
  by (simp add: updateAndHandleEmptyMap_cases isMissingPath_def ddb_example_missing
      ddb_setMap_empty ddb_setMap_exists del: ddb.simps)

lemma validKeys_of_set:
  "set (validKeys_of indexData) = {k. \<exists>d. map_of indexData k = Some (Some d)}"
  by (auto simp: validKeys_of_def js_get_def Object_keys_def split: option.splits
      dest: map_of_SomeD intro: rev_image_eqI)

lemma params_null_iff:
  "getDynamoDbUpdateItemParams env timestamp indexId (Some indexData) = Inr None
     \<longleftrightarrow> validKeys_of indexData = []"
  by (cases "getIndexTableName env") (auto simp: getDynamoDbUpdateItemParams_def Let_def)

lemma updateIndexRecord_skip:
  "validKeys_of indexData = [] \<Longrightarrow>
     updateIndexRecord gw env timestamp indexId (Some indexData) g = (Inr None, g)"
  by (simp add: updateIndexRecord_def getDynamoDbUpdateItemParams_def)

lemma updateIndexRecord_undefined:
  "updateIndexRecord gw env timestamp indexId None g =
     (Inl (TypeError ''Cannot convert undefined or null to object''), g)"
  by (simp add: updateIndexRecord_def getDynamoDbUpdateItemParams_def)

text \<open>
  Claim C7. The valid keys are exactly the keys whose value is not \<^verbatim>\<open>undefined\<close>;
  \<^verbatim>\<open>getDynamoDbUpdateItemParams\<close> returns \<^verbatim>\<open>null\<close> exactly when there is none, as for \<^verbatim>\<open>{}\<close> and
  \<^verbatim>\<open>{k: undefined}\<close>; \<^verbatim>\<open>updateIndexRecord\<close> then returns the skipped marker and leaves the
  store and the list of requests as they were.
\<close>

theorem getDynamoDbUpdateItemParams_null_when_no_valid_key:
  "set (validKeys_of indexData) = {k. \<exists>d. map_of indexData k = Some (Some d)}
   \<and> (getDynamoDbUpdateItemParams env timestamp indexId (Some indexData) = Inr None
        \<longleftrightarrow> validKeys_of indexData = [])
   \<and> (validKeys_of indexData = [] \<longrightarrow>
        updateIndexRecord gw env timestamp indexId (Some indexData) g = (Inr None, g))
   \<and> getDynamoDbUpdateItemParams env timestamp indexId (Some []) = Inr None
   \<and> getDynamoDbUpdateItemParams env timestamp indexId (Some [(k, None)]) = Inr None
   \<and> updateIndexRecord gw env timestamp indexId (Some []) g = (Inr None, g)
   \<and> updateIndexRecord gw env timestamp indexId (Some [(k, None)]) g = (Inr None, g)"
proof -
  have e1: "validKeys_of ([] :: IIndexUpdateDictionary) = []"
    and e2: "validKeys_of [(k, None :: int option)] = []"
    by (simp_all add: validKeys_of_def Object_keys_def js_get_def)
  show ?thesis
    using params_null_iff[of env timestamp indexId indexData]
      updateIndexRecord_skip[of indexData gw env timestamp indexId g]
      updateIndexRecord_skip[OF e1, of gw env timestamp indexId g]
      updateIndexRecord_skip[OF e2, of gw env timestamp indexId g]
      params_null_iff[of env timestamp indexId "[]"]
      params_null_iff[of env timestamp indexId "[(k, None)]"] e1 e2
    by (simp add: validKeys_of_set)
qed

theorem getDynamoDbUpdateItemParams_null_when_no_valid_key_witness:
  "validKeys_of [(''k'', None), (''j'', None)] = []
   \<and> set (validKeys_of [(''a'', Some 3), (''u'', None), (''z'', Some 0)]) = {''a'', ''z''}
   \<and> getDynamoDbUpdateItemParams (Some ''indexes'') 1700000000000 TAGS_ID
         (Some [(''k'', None), (''j'', None)]) = Inr None
   \<and> updateIndexRecord ddb (Some ''indexes'') 1700000000000 TAGS_ID
         (Some [(''k'', None), (''j'', None)]) empty_store = (Inr None, empty_store)
   \<and> updateIndexRecord ddb None 1700000000000 TAGS_ID (Some []) empty_store
        = (Inr None, empty_store)"
  using getDynamoDbUpdateItemParams_null_when_no_valid_key
    [where indexData = "[(''k'', None), (''j'', None)]" and env = "Some ''indexes''"
       and timestamp = 1700000000000 and indexId = TAGS_ID and gw = ddb and g = empty_store]
    getDynamoDbUpdateItemParams_null_when_no_valid_key
    [where indexData = "[]" and env = None
       and timestamp = 1700000000000 and indexId = TAGS_ID and gw = ddb and g = empty_store]
  by (auto simp: validKeys_of_def Object_keys_def js_get_def)

section \<open>Claims about the request handlers\<close>

text \<open>
  Claim C6, as amended. A slot whose delta mapping is present and has no valid key gets the
  skipped marker, without a request to the store, and the response is the success envelope
  unless the other slot fails. A slot whose delta mapping is left out of the request is not
  skipped: \<^verbatim>\<open>Object.keys\<close> throws on \<^verbatim>\<open>undefined\<close> and the response is the failure envelope.
\<close>

theorem putItem_skips_slot_without_valid_keys:
  "(validKeys_of tagsData = [] \<longrightarrow>
      updateIndexRecord gw env t1 TAGS_ID (Some tagsData) g = (Inr None, g)
      \<and> putItem gw env t1 t2
          \<lparr>indexUpdate = Some \<lparr>update_tags = Some tagsData, update_people = people'\<rparr>\<rparr> g =
        (case updateIndexRecord gw env t2 PEOPLE_ID people' g of
           (Inl e, g') \<Rightarrow> (failure e, g')
         | (Inr r, g') \<Rightarrow> (success \<lparr>tagsUpdateResponse = None, peopleUpdateResponse = r\<rparr>, g')))
   \<and> (validKeys_of peopleData = [] \<longrightarrow>
      updateIndexRecord gw env t2 PEOPLE_ID (Some peopleData) g = (Inr None, g)
      \<and> putItem gw env t1 t2
          \<lparr>indexUpdate = Some \<lparr>update_tags = tags', update_people = Some peopleData\<rparr>\<rparr> g =
        (case updateIndexRecord gw env t1 TAGS_ID tags' g of
           (Inl e, g') \<Rightarrow> (failure e, g')
         | (Inr r, g') \<Rightarrow> (success \<lparr>tagsUpdateResponse = r, peopleUpdateResponse = None\<rparr>, g')))
   \<and> putItem gw env t1 t2 \<lparr>indexUpdate = Some \<lparr>update_tags = None, update_people = people'\<rparr>\<rparr> g =
       (failure (TypeError ''Cannot convert undefined or null to object''), g)
   \<and> putItem gw env t1 t2 \<lparr>indexUpdate = Some \<lparr>update_tags = tags', update_people = None\<rparr>\<rparr> g =
       (case updateIndexRecord gw env t1 TAGS_ID tags' g of
          (Inl e, g') \<Rightarrow> (failure e, g')
        | (Inr r, g') \<Rightarrow> (failure (TypeError ''Cannot convert undefined or null to object''), g'))"
  by (auto simp: putItem_def updateIndexRecord_skip updateIndexRecord_undefined
      split: prod.splits sum.splits)

theorem putItem_skips_slot_without_valid_keys_witness:
  "validKeys_of [(''k'', None)] = [] \<and> validKeys_of ([] :: IIndexUpdateDictionary) = []
   \<and> putItem ddb (Some ''indexes'') 1700000000000 1700000000001
        \<lparr>indexUpdate = Some \<lparr>update_tags = Some [(''k'', None)], update_people = Some []\<rparr>\<rparr>
        empty_store =
       (success \<lparr>tagsUpdateResponse = None, peopleUpdateResponse = None\<rparr>, empty_store)"
  using putItem_skips_slot_without_valid_keys
    [where tagsData = "[(''k'', None)]" and peopleData = "[]" and people' = "Some []"
       and tags' = "Some [(''k'', None)]" and gw = ddb and env = "Some ''indexes''"
       and ?t1.0 = 1700000000000 and ?t2.0 = 1700000000001 and g = empty_store]
  by (auto simp: validKeys_of_def Object_keys_def js_get_def)

text \<open>
  Claim C6 as stated fails for a slot that the request leaves out: with \<^verbatim>\<open>tags\<close> omitted the
  response is the failure envelope, and the update of \<^verbatim>\<open>people\<close> is never attempted.
\<close>

theorem putItem_omitted_slot_counterexample:
  "putItem ddb (Some ''indexes'') 1700000000000 1700000000001
     \<lparr>indexUpdate = Some \<lparr>update_tags = None, update_people = Some [(''bob'', Some 1)]\<rparr>\<rparr>
     empty_store =
   (failure (TypeError ''Cannot convert undefined or null to object''), empty_store)"
  by (simp add: putItem_def updateIndexRecord_undefined)

section \<open>The built increment request, evaluated\<close>

text \<open>
  The numeral of an index can be read back, so two indexes never share a placeholder, and
  it consists of digits, so it is one word of the expression and differs from the fixed
  placeholders.
\<close>

definition digit_val :: "char \<Rightarrow> nat" where
  "digit_val c = length (takeWhile (\<lambda>x. x \<noteq> c) ''0123456789'') mod 10"

definition read_nat :: "string \<Rightarrow> nat" where
  "read_nat s = foldl (\<lambda>a c. 10 * a + digit_val c) 0 s"

lemma below_ten: "(n::nat) < 10 \<Longrightarrow> n \<in> {0, 1, 2, 3, 4, 5, 6, 7, 8, 9}"
  by auto

lemma digit_val_digit_char: "digit_val (digit_char n) = n mod 10"
proof -
  have "n mod 10 \<in> {0, 1, 2, 3, 4, 5, 6, 7, 8, 9}" by (rule below_ten) simp
  then show ?thesis
    by (auto simp: digit_char_def digit_val_def)
qed

lemma digit_char_word: "digit_char n \<noteq> CHR '' '' \<and> symbol (digit_char n) = None"
proof -
  have "n mod 10 \<in> {0, 1, 2, 3, 4, 5, 6, 7, 8, 9}" by (rule below_ten) simp
  then show ?thesis
    by (auto simp: digit_char_def symbol_def)
qed

lemma read_show_nat: "read_nat (show_nat n) = n"
proof (induction n rule: show_nat.induct)
  case (1 n)
  show ?case
  proof (cases "n < 10")
    case True
    then show ?thesis
      by (subst show_nat.simps) (simp add: read_nat_def digit_val_digit_char)
  next
    case False
    with 1 have "read_nat (show_nat (n div 10)) = n div 10" by simp
    with False show ?thesis
      by (subst show_nat.simps) (simp add: read_nat_def digit_val_digit_char)
  qed
qed

lemma show_nat_inj: "show_nat i = show_nat j \<longleftrightarrow> i = j"
  by (metis read_show_nat)

lemma show_nat_word: "c \<in> set (show_nat n) \<Longrightarrow> c \<noteq> CHR '' '' \<and> symbol c = None"
proof (induction n rule: show_nat.induct)
  case (1 n)
  then show ?case
    by (subst (asm) (2) show_nat.simps) (auto simp: digit_char_word split: if_splits)
qed

text \<open>The tokens and the parse of the expression built for the valid keys.\<close>

lemma tokenize_word:
  "(\<And>c. c \<in> set u \<Longrightarrow> c \<noteq> CHR '' '' \<and> symbol c = None) \<Longrightarrow>
     tokenize w (u @ rest) = tokenize (w @ u) rest"
  by (induction u arbitrary: w) auto

lemma tokenize_show_nat: "tokenize w (show_nat n @ rest) = tokenize (w @ show_nat n) rest"
  by (rule tokenize_word) (rule show_nat_word)

definition action_tokens :: "nat \<Rightarrow> token list" where
  "action_tokens i =
     [Word ''#indexKeysProp'', Dot, Word (''#'' @ show_nat i), Eq,
      Word ''if_not_exists'', LParen, Word ''#indexKeysProp'', Dot, Word (''#'' @ show_nat i),
      Comma, Word '':zero'', RParen, Plus, Word ('':'' @ show_nat i)]"

lemma tokenize_updateKeyValue:
  "tokenize [] (updateKeyValue ik @ '', '' @ rest) = action_tokens (fst ik) @ Comma # tokenize [] rest"
  by (simp add: updateKeyValue_def action_tokens_def tokenize_show_nat symbol_def flush_def)

lemma join_append:
  "xs \<noteq> [] \<Longrightarrow> join sep xs @ sep @ rest = concat (map (\<lambda>x. x @ sep) xs) @ rest"
  by (induction sep xs rule: join.induct) auto

lemma tokenize_actions:
  "tokenize [] (concat (map (\<lambda>x. x @ '', '') (map updateKeyValue xs)) @ rest) =
     concat (map (\<lambda>ik. action_tokens (fst ik) @ [Comma]) xs) @ tokenize [] rest"
proof (induction xs)
  case Nil
  show ?case by simp
next
  case (Cons x xs)
  have "tokenize [] (concat (map (\<lambda>x. x @ '', '') (map updateKeyValue (x # xs))) @ rest) =
        tokenize [] (updateKeyValue x @ '', ''
          @ (concat (map (\<lambda>x. x @ '', '') (map updateKeyValue xs)) @ rest))"
    by simp
  also have "\<dots> = action_tokens (fst x) @ Comma
      # tokenize [] (concat (map (\<lambda>x. x @ '', '') (map updateKeyValue xs)) @ rest)"
    by (rule tokenize_updateKeyValue)
  finally show ?case using Cons.IH by simp
qed

definition increment_action :: "nat \<Rightarrow> action" where
  "increment_action i =
     ([''#indexKeysProp'', ''#'' @ show_nat i],
      Sum (IfNotExists [''#indexKeysProp'', ''#'' @ show_nat i] '':zero'') (Value ('':'' @ show_nat i)))"

lemma parse_action_tokens:
  "parse_action (action_tokens i @ Comma # rest) = Some (increment_action i, Comma # rest)"
  by (simp add: parse_action_def action_tokens_def increment_action_def)

lemma parse_actions_tokens:
  "parse_actions (concat (map (\<lambda>ik. action_tokens (fst ik) @ [Comma]) xs) @ final) =
     map_option (\<lambda>r. map (\<lambda>ik. increment_action (fst ik)) xs @ r) (parse_actions final)"
proof (induction xs)
  case Nil
  show ?case by (simp add: option.map_ident)
next
  case (Cons x xs)
  have "parse_actions (concat (map (\<lambda>ik. action_tokens (fst ik) @ [Comma]) (x # xs)) @ final) =
        parse_actions (action_tokens (fst x) @ Comma #
          (concat (map (\<lambda>ik. action_tokens (fst ik) @ [Comma]) xs) @ final))"
    by simp
  also have "\<dots> = map_option ((#) (increment_action (fst x)))
      (parse_actions (concat (map (\<lambda>ik. action_tokens (fst ik) @ [Comma]) xs) @ final))"
    by (subst parse_actions.simps) (simp add: parse_action_tokens)
  finally show ?case using Cons.IH by (simp add: option.map_comp comp_def)
qed

lemma parse_actions_updatedAt:
  "parse_actions [Word ''updatedAt'', Eq, Word '':updatedAt''] =
     Some [([''updatedAt''], Operand (Value '':updatedAt''))]"
  by (simp add: parse_actions.simps parse_action_def)

lemma parse_update_increment:
  assumes "xs \<noteq> []"
  shows "parse_update (''SET '' @ join '', '' (map updateKeyValue xs) @ '', updatedAt = :updatedAt'') =
     Some (map (\<lambda>ik. increment_action (fst ik)) xs @ [([''updatedAt''], Operand (Value '':updatedAt''))])"
proof -
  have "join '', '' (map updateKeyValue xs) @ '', updatedAt = :updatedAt'' =
        join '', '' (map updateKeyValue xs) @ '', '' @ ''updatedAt = :updatedAt''"
    by simp
  also have "\<dots> = concat (map (\<lambda>x. x @ '', '') (map updateKeyValue xs)) @ ''updatedAt = :updatedAt''"
    using assms by (intro join_append) simp
  finally have e: "join '', '' (map updateKeyValue xs) @ '', updatedAt = :updatedAt'' =
      concat (map (\<lambda>x. x @ '', '') (map updateKeyValue xs)) @ ''updatedAt = :updatedAt''" .
  have t: "tokenize [] ''updatedAt = :updatedAt'' = [Word ''updatedAt'', Eq, Word '':updatedAt'']"
    by (simp add: symbol_def flush_def)
  have "tokenize [] (''SET '' @ join '', '' (map updateKeyValue xs) @ '', updatedAt = :updatedAt'') =
        Word ''SET'' # tokenize [] (join '', '' (map updateKeyValue xs) @ '', updatedAt = :updatedAt'')"
    by (simp add: symbol_def flush_def)
  also have "\<dots> = Word ''SET'' # concat (map (\<lambda>ik. action_tokens (fst ik) @ [Comma]) xs)
      @ [Word ''updatedAt'', Eq, Word '':updatedAt'']"
    unfolding e tokenize_actions t by simp
  finally show ?thesis
    by (simp add: parse_update_def parse_actions_tokens parse_actions_updatedAt)
qed

lemma digit_char_digit: "digit_char n \<in> set ''0123456789''"
proof -
  have "n mod 10 \<in> {0, 1, 2, 3, 4, 5, 6, 7, 8, 9}" by (rule below_ten) simp
  then show ?thesis
    by (auto simp: digit_char_def)
qed

lemma show_nat_digits: "c \<in> set (show_nat n) \<Longrightarrow> c \<in> set ''0123456789''"
proof (induction n rule: show_nat.induct)
  case (1 n)
  then show ?case
    using digit_char_digit[of n]
    by (subst (asm) (2) show_nat.simps) (auto split: if_splits)
qed

lemma hash_not_prop: "show_nat i \<noteq> ''indexKeysProp''"
proof
  assume "show_nat i = ''indexKeysProp''"
  then have "CHR ''i'' \<in> set (show_nat i)" by simp
  then show False by (auto dest: show_nat_digits)
qed

lemma colon_not_named:
  "show_nat i \<noteq> ''zero''" "show_nat i \<noteq> ''updatedAt''"
proof -
  show "show_nat i \<noteq> ''zero''"
  proof
    assume "show_nat i = ''zero''"
    then have "CHR ''z'' \<in> set (show_nat i)" by simp
    then show False by (auto dest: show_nat_digits)
  qed
  show "show_nat i \<noteq> ''updatedAt''"
  proof
    assume "show_nat i = ''updatedAt''"
    then have "CHR ''u'' \<in> set (show_nat i)" by simp
    then show False by (auto dest: show_nat_digits)
  qed
qed

text \<open>What the placeholders of the built request stand for.\<close>

lemma names_step_map:
  "map_of (names_step ik acc) =
     (map_of acc)(CHR ''#'' # show_nat (fst ik) \<mapsto> snd ik, ''#indexKeysProp'' \<mapsto> INDEX_KEYS_PROP)"
  by (simp add: names_step_def update_conv')

lemma names_other:
  "j \<notin> fst ` set xs \<Longrightarrow>
     map_of (fold names_step xs acc) (CHR ''#'' # show_nat j) = map_of acc (CHR ''#'' # show_nat j)"
  by (induction xs arbitrary: acc) (auto simp: names_step_map hash_not_prop hash_not_prop[symmetric] show_nat_inj)

lemma names_lookup:
  "distinct (map fst xs) \<Longrightarrow> (j, k) \<in> set xs \<Longrightarrow>
     map_of (fold names_step xs acc) (CHR ''#'' # show_nat j) = Some k"
proof (induction xs arbitrary: acc)
  case Nil
  then show ?case by simp
next
  case (Cons x xs)
  show ?case
  proof (cases "(j, k) \<in> set xs")
    case True
    with Cons show ?thesis by simp
  next
    case False
    with Cons.prems have x: "x = (j, k)" by simp
    with Cons.prems have "j \<notin> fst ` set xs" by simp
    with x show ?thesis
      by (simp add: names_other names_step_map hash_not_prop hash_not_prop[symmetric])
  qed
qed

lemma names_prop:
  "xs \<noteq> [] \<Longrightarrow> map_of (fold names_step xs acc) ''#indexKeysProp'' = Some INDEX_KEYS_PROP"
proof (induction xs arbitrary: acc)
  case Nil
  then show ?case by simp
next
  case (Cons x xs)
  show ?case
  proof (cases xs)
    case Nil
    then show ?thesis by (simp add: names_step_map)
  next
    case (Cons y ys)
    then have "xs \<noteq> []" by simp
    from Cons.IH[OF this] show ?thesis by simp
  qed
qed

lemma values_step_map:
  "js_get indexData (snd ik) = Some d \<Longrightarrow>
     map_of (values_step indexData ik acc) = (map_of acc)(CHR '':'' # show_nat (fst ik) \<mapsto> N d)"
  by (simp add: values_step_def update_conv')

lemma values_other:
  "\<forall>ik\<in>set xs. js_get indexData (snd ik) \<noteq> None \<Longrightarrow> j \<notin> fst ` set xs \<Longrightarrow>
     map_of (fold (values_step indexData) xs acc) (CHR '':'' # show_nat j) = map_of acc (CHR '':'' # show_nat j)"
proof (induction xs arbitrary: acc)
  case Nil
  then show ?case by simp
next
  case (Cons x xs)
  from Cons.prems obtain d where d: "js_get indexData (snd x) = Some d" by auto
  from Cons.prems have "fst x \<noteq> j" by auto
  with Cons d show ?case by (simp add: values_step_map show_nat_inj)
qed

lemma values_named:
  "\<forall>ik\<in>set xs. js_get indexData (snd ik) \<noteq> None \<Longrightarrow>
     map_of (fold (values_step indexData) xs acc) '':zero'' = map_of acc '':zero''
     \<and> map_of (fold (values_step indexData) xs acc) '':updatedAt'' = map_of acc '':updatedAt''"
proof (induction xs arbitrary: acc)
  case Nil
  then show ?case by simp
next
  case (Cons x xs)
  from Cons.prems obtain d where d: "js_get indexData (snd x) = Some d" by auto
  with Cons show ?case
    by (simp add: values_step_map colon_not_named colon_not_named[symmetric])
qed

lemma values_lookup:
  "\<forall>ik\<in>set xs. js_get indexData (snd ik) \<noteq> None \<Longrightarrow> distinct (map fst xs) \<Longrightarrow>
     (j, k) \<in> set xs \<Longrightarrow>
     map_of (fold (values_step indexData) xs acc) (CHR '':'' # show_nat j) =
       map_option N (js_get indexData k)"
proof (induction xs arbitrary: acc)
  case Nil
  then show ?case by simp
next
  case (Cons x xs)
  from Cons.prems obtain d where d: "js_get indexData (snd x) = Some d" by auto
  show ?case
  proof (cases "(j, k) \<in> set xs")
    case True
    with Cons show ?thesis by simp
  next
    case False
    with Cons.prems have x: "x = (j, k)" by simp
    with Cons.prems have "j \<notin> fst ` set xs" by simp
    with x Cons.prems d show ?thesis
      by (simp add: values_other values_step_map)
  qed
qed

text \<open>
  The value an increment writes for key \<open>k\<close>: the stored count, or zero, plus the delta.
\<close>

definition new_value :: "IIndexDictionary \<Rightarrow> IIndexUpdateDictionary \<Rightarrow> string \<Rightarrow> int" where
  "new_value m indexData k =
     (case map_of m k of Some v \<Rightarrow> v | None \<Rightarrow> 0)
       + (case js_get indexData k of Some d \<Rightarrow> d | None \<Rightarrow> 0)"

lemma mapE_map:
  "(\<And>x. x \<in> set xs \<Longrightarrow> f (g x) = Inr (h x)) \<Longrightarrow> mapE f (map g xs) = Inr (map h xs)"
  by (induction xs) auto

lemma mapE_append:
  "mapE f xs = Inr as \<Longrightarrow> mapE f ys = Inr bs \<Longrightarrow> mapE f (xs @ ys) = Inr (as @ bs)"
proof (induction xs arbitrary: as)
  case Nil
  then show ?case by simp
next
  case (Cons x xs)
  then show ?case
    by (cases "f x"; cases "mapE f xs") auto
qed

lemma eval_increment_action:
  assumes valid: "\<forall>ik\<in>set xs. js_get indexData (snd ik) \<noteq> None"
    and dist: "distinct (map fst xs)"
    and mem: "(i, k) \<in> set xs"
    and keys: "map_of it INDEX_KEYS_PROP = Some (M m)"
    and zero: "map_of acc '':zero'' = Some (N 0)"
  shows "eval_action (fold names_step xs []) (fold (values_step indexData) xs acc) it
           (increment_action i) = Inr ([INDEX_KEYS_PROP, k], N (new_value m indexData k))"
proof -
  from mem have ne: "xs \<noteq> []" by auto
  from valid mem obtain d where d: "js_get indexData k = Some d" by fastforce
  have n1: "map_of (fold names_step xs []) ''#indexKeysProp'' = Some INDEX_KEYS_PROP"
    by (rule names_prop[OF ne])
  have n2: "map_of (fold names_step xs []) (CHR ''#'' # show_nat i) = Some k"
    by (rule names_lookup[OF dist mem])
  have v1: "map_of (fold (values_step indexData) xs acc) (CHR '':'' # show_nat i) = Some (N d)"
    using values_lookup[OF valid dist mem] d by simp
  have v0: "map_of (fold (values_step indexData) xs acc) '':zero'' = Some (N 0)"
    using values_named[OF valid] zero by simp
  show ?thesis
    using n1 n2 v1 v0 keys d
    by (simp add: eval_action_def increment_action_def resolve_name_def lookup_value_def
        add_attr_def new_value_def split: option.splits)
qed

lemma eval_updatedAt_action:
  assumes valid: "\<forall>ik\<in>set xs. js_get indexData (snd ik) \<noteq> None"
    and at: "map_of acc '':updatedAt'' = Some (N timestamp)"
  shows "eval_action names (fold (values_step indexData) xs acc) it
           ([''updatedAt''], Operand (Value '':updatedAt'')) = Inr ([''updatedAt''], N timestamp)"
  using values_named[OF valid, of acc] at
  by (simp add: eval_action_def resolve_name_def lookup_value_def)

lemma apply_sets_increments:
  "map_of it INDEX_KEYS_PROP = Some (M m) \<Longrightarrow>
     apply_sets (map (\<lambda>kv. ([INDEX_KEYS_PROP, fst kv], N (snd kv))) kvs @ rest) it =
       apply_sets rest
         (AList.update INDEX_KEYS_PROP (M (fold (\<lambda>kv. AList.update (fst kv) (snd kv)) kvs m)) it)"
proof (induction kvs arbitrary: m it)
  case Nil
  then show ?case by (simp add: update_triv)
next
  case (Cons kv kvs)
  let ?it = "AList.update INDEX_KEYS_PROP (M (AList.update (fst kv) (snd kv) m)) it"
  have "map_of ?it INDEX_KEYS_PROP = Some (M (AList.update (fst kv) (snd kv) m))"
    by (simp add: update_conv')
  from Cons.IH[OF this] Cons.prems show ?case
    by (simp add: update_last)
qed

lemma fold_update_map:
  "map_of (fold (\<lambda>kv. AList.update (fst kv) (snd kv)) (map (\<lambda>k. (k, f k)) ks) m) k =
     (if k \<in> set ks then Some (f k) else map_of m k)"
  by (induction ks arbitrary: m) (auto simp: update_conv')

lemma validKeys_of_defined: "k \<in> set (validKeys_of indexData) \<longleftrightarrow> js_get indexData k \<noteq> None"
  by (auto simp: validKeys_of_def js_get_def Object_keys_def split: option.splits
      dest: map_of_SomeD intro: rev_image_eqI)

lemma increment_request_eval:
  assumes env: "getIndexTableName env = Inr t"
    and wf: "distinct (Object_keys indexData)"
    and nonempty: "validKeys_of indexData \<noteq> []"
    and prior: "map_of it INDEX_KEYS_PROP = Some (M m)"
  shows "\<exists>p. getDynamoDbUpdateItemParams env timestamp indexId (Some indexData) = Inr (Some p)
     \<and> Key p = indexId \<and> TableName p = t \<and> ReturnValues p = Some ''ALL_NEW''
     \<and> eval_update p it =
         Inr (AList.update ''updatedAt'' (N timestamp)
               (AList.update INDEX_KEYS_PROP
                  (M (fold (\<lambda>kv. AList.update (fst kv) (snd kv))
                        (map (\<lambda>k. (k, new_value m indexData k)) (validKeys_of indexData)) m)) it))"
proof -
  let ?ks = "validKeys_of indexData"
  let ?xs = "enumerate 0 ?ks"
  let ?acc = "[('':updatedAt'', N timestamp), ('':zero'', N 0)]"
  let ?names = "fold names_step ?xs []"
  let ?vals = "fold (values_step indexData) ?xs ?acc"
  let ?p = "\<lparr>ConditionExpression = None,
      ExpressionAttributeNames = ?names,
      ExpressionAttributeValues = ?vals,
      Key = indexId,
      ReturnValues = Some ''ALL_NEW'',
      TableName = t,
      UpdateExpression = ''SET '' @ join '', '' (map updateKeyValue ?xs) @ '', updatedAt = :updatedAt''\<rparr>"
  have params: "getDynamoDbUpdateItemParams env timestamp indexId (Some indexData) = Inr (Some ?p)"
    using env nonempty by (simp add: getDynamoDbUpdateItemParams_def Let_def)
  have xs_ne: "?xs \<noteq> []" using nonempty by (cases ?ks) simp_all
  have dist_xs: "distinct (map fst ?xs)" by simp
  have dist_ks: "distinct ?ks" using wf by (simp add: validKeys_of_def)
  have valid: "\<forall>ik\<in>set ?xs. js_get indexData (snd ik) \<noteq> None"
  proof
    fix ik assume "ik \<in> set ?xs"
    then have "snd ik \<in> set (map snd ?xs)" by (simp del: map_snd_enumerate)
    then have "snd ik \<in> set ?ks" by simp
    then show "js_get indexData (snd ik) \<noteq> None" by (simp add: validKeys_of_defined)
  qed
  have parsed: "parse_update (UpdateExpression ?p) =
      Some (map (\<lambda>ik. increment_action (fst ik)) ?xs @ [([''updatedAt''], Operand (Value '':updatedAt''))])"
    using parse_update_increment[OF xs_ne] by simp
  have incs: "mapE (eval_action ?names ?vals it) (map (\<lambda>ik. increment_action (fst ik)) ?xs) =
      Inr (map (\<lambda>ik. ([INDEX_KEYS_PROP, snd ik], N (new_value m indexData (snd ik)))) ?xs)"
  proof (rule mapE_map)
    fix x assume "x \<in> set ?xs"
    then have "(fst x, snd x) \<in> set ?xs" by simp
    from eval_increment_action[OF valid dist_xs this prior, of ?acc]
    show "eval_action ?names ?vals it (increment_action (fst x)) =
        Inr ([INDEX_KEYS_PROP, snd x], N (new_value m indexData (snd x)))"
      by simp
  qed
  have last: "mapE (eval_action ?names ?vals it) [([''updatedAt''], Operand (Value '':updatedAt''))] =
      Inr [([''updatedAt''], N timestamp)]"
    using eval_updatedAt_action[OF valid, of ?acc timestamp ?names it] by simp
  have "map (\<lambda>k. ([INDEX_KEYS_PROP, k], N (new_value m indexData k))) (map snd ?xs) =
      map (\<lambda>ik. ([INDEX_KEYS_PROP, snd ik], N (new_value m indexData (snd ik)))) ?xs"
    by (simp only: map_map comp_def)
  then have sets_ks: "map (\<lambda>ik. ([INDEX_KEYS_PROP, snd ik], N (new_value m indexData (snd ik)))) ?xs =
      map (\<lambda>kv. ([INDEX_KEYS_PROP, fst kv], N (snd kv))) (map (\<lambda>k. (k, new_value m indexData k)) ?ks)"
    by (simp add: comp_def)
  let ?sets = "map (\<lambda>kv. ([INDEX_KEYS_PROP, fst kv], N (snd kv))) (map (\<lambda>k. (k, new_value m indexData k)) ?ks)
      @ [([''updatedAt''], N timestamp)]"
  have evald: "mapE (eval_action ?names ?vals it)
      (map (\<lambda>ik. increment_action (fst ik)) ?xs @ [([''updatedAt''], Operand (Value '':updatedAt''))]) =
      Inr ?sets"
    using mapE_append[OF incs last] sets_ks by simp
  have dist_sets: "distinct (map fst ?sets)"
    using dist_ks by (auto simp: comp_def distinct_map inj_on_def)
  have applied: "apply_sets ?sets it =
      Inr (AList.update ''updatedAt'' (N timestamp)
            (AList.update INDEX_KEYS_PROP
               (M (fold (\<lambda>kv. AList.update (fst kv) (snd kv))
                     (map (\<lambda>k. (k, new_value m indexData k)) ?ks) m)) it))"
    using apply_sets_increments[OF prior, of "map (\<lambda>k. (k, new_value m indexData k)) ?ks"
        "[([''updatedAt''], N timestamp)]"]
    by simp
  have "eval_update ?p it =
      Inr (AList.update ''updatedAt'' (N timestamp)
            (AList.update INDEX_KEYS_PROP
               (M (fold (\<lambda>kv. AList.update (fst kv) (snd kv))
                     (map (\<lambda>k. (k, new_value m indexData k)) ?ks) m)) it))"
    unfolding eval_update_def parsed
    using evald dist_sets applied by (simp add: check_condition_def)
  with params show ?thesis by simp
qed

lemma dropped_keys_mem:
  "k \<in> set (dropped_keys d) \<longleftrightarrow> (\<exists>v. map_of d k = Some v \<and> v \<le> 0)"
  by (auto simp: dropped_keys_def Object_keys_def split: option.splits
      dest: map_of_SomeD intro: rev_image_eqI)

text \<open>
  Claim C4. For a configured table, any slot and any delta mapping with a valid key,
  \<^verbatim>\<open>getDynamoDbUpdateItemParams\<close> returns a request for that slot whose evaluation on a
  record holding the counter map \<open>m\<close> succeeds and sets, for every valid key \<open>k\<close> with delta
  \<open>d\<close>, \<^verbatim>\<open>indexKeys[k]\<close> to the stored value (or zero) plus \<open>d\<close>, leaves the other keys of the
  map as they were, sets \<^verbatim>\<open>updatedAt\<close> to the timestamp and leaves the other attributes alone.
  The delta mapping is a JavaScript object, so its keys are distinct. The witness is the
  spec's example: the deltas \<^verbatim>\<open>{a: 3, b: -1}\<close> on the state \<^verbatim>\<open>{a: 5}\<close> give \<^verbatim>\<open>{a: 8, b: -1}\<close>.
\<close>

theorem getDynamoDbUpdateItemParams_increments:
  assumes "getIndexTableName env = Inr t"
    and "distinct (Object_keys indexData)"
    and "validKeys_of indexData \<noteq> []"
    and "map_of it INDEX_KEYS_PROP = Some (M m)"
  shows "\<exists>p it' m'.
      getDynamoDbUpdateItemParams env timestamp indexId (Some indexData) = Inr (Some p)
    \<and> Key p = indexId
    \<and> eval_update p it = Inr it'
    \<and> map_of it' INDEX_KEYS_PROP = Some (M m')
    \<and> (\<forall>k. map_of m' k =
          (case js_get indexData k of
             Some d \<Rightarrow> Some ((case map_of m k of Some v \<Rightarrow> v | None \<Rightarrow> 0) + d)
           | None \<Rightarrow> map_of m k))
    \<and> map_of it' ''updatedAt'' = Some (N timestamp)
    \<and> (\<forall>a. a \<noteq> INDEX_KEYS_PROP \<and> a \<noteq> ''updatedAt'' \<longrightarrow> map_of it' a = map_of it a)
    \<and> (\<forall>tbl. tbl indexId = Some it \<longrightarrow>
          ddb (Update p) tbl = (Inr (UpdateItemOutput (Some it')), tbl(indexId \<mapsto> it')))"
proof -
  let ?m' = "fold (\<lambda>kv. AList.update (fst kv) (snd kv))
               (map (\<lambda>k. (k, new_value m indexData k)) (validKeys_of indexData)) m"
  let ?it' = "AList.update ''updatedAt'' (N timestamp) (AList.update INDEX_KEYS_PROP (M ?m') it)"
  from increment_request_eval[OF assms, of timestamp indexId]
  obtain p where p: "getDynamoDbUpdateItemParams env timestamp indexId (Some indexData) = Inr (Some p)"
    and key: "Key p = indexId" and rv: "ReturnValues p = Some ''ALL_NEW''"
    and ev: "eval_update p it = Inr ?it'"
    by blast
  have a: "map_of ?it' INDEX_KEYS_PROP = Some (M ?m')"
    by (simp add: update_conv' INDEX_KEYS_PROP_def)
  have b: "\<forall>k. map_of ?m' k =
          (case js_get indexData k of
             Some d \<Rightarrow> Some ((case map_of m k of Some v \<Rightarrow> v | None \<Rightarrow> 0) + d)
           | None \<Rightarrow> map_of m k)"
    by (simp add: fold_update_map validKeys_of_defined new_value_def split: option.splits)
  have c: "map_of ?it' ''updatedAt'' = Some (N timestamp)"
    by (simp add: update_conv')
  have d: "\<forall>a. a \<noteq> INDEX_KEYS_PROP \<and> a \<noteq> ''updatedAt'' \<longrightarrow> map_of ?it' a = map_of it a"
    by (simp add: update_conv')
  have e: "\<forall>tbl. tbl indexId = Some it \<longrightarrow>
          ddb (Update p) tbl = (Inr (UpdateItemOutput (Some ?it')), tbl(indexId \<mapsto> ?it'))"
    using ev key rv by simp
  from p key ev a b c d e show ?thesis by blast
qed

theorem getDynamoDbUpdateItemParams_increments_witness:
  "getIndexTableName (Some ''indexes'') = Inr ''indexes''
   \<and> distinct (Object_keys example_deltas)
   \<and> validKeys_of example_deltas \<noteq> []
   \<and> map_of [(''indexKeys'', M [(''a'', 5)])] INDEX_KEYS_PROP = Some (M [(''a'', 5)])
   \<and> getDynamoDbUpdateItemParams (Some ''indexes'') 1700000000000 TAGS_ID (Some example_deltas)
       = Inr (Some example_params)
   \<and> eval_update example_params [(''indexKeys'', M [(''a'', 5)])]
       = Inr [(''indexKeys'', M [(''a'', 8), (''b'', - 1)]), (''updatedAt'', N 1700000000000)]
   \<and> ddb (Update example_params) [''tags'' \<mapsto> [(''indexKeys'', M [(''a'', 5)])]]
       = (Inr (UpdateItemOutput (Some [(''indexKeys'', M [(''a'', 8), (''b'', - 1)]),
                                       (''updatedAt'', N 1700000000000)])),
          [''tags'' \<mapsto> [(''indexKeys'', M [(''a'', 8), (''b'', - 1)]),
                         (''updatedAt'', N 1700000000000)]])"
  using getDynamoDbUpdateItemParams_increments
    [where env = "Some ''indexes''" and t = "''indexes''" and indexData = example_deltas
       and it = "[(''indexKeys'', M [(''a'', 5)])]" and m = "[(''a'', 5)]"
       and timestamp = 1700000000000 and indexId = TAGS_ID]
  by (simp add: getDynamoDbUpdateItemParams_example)
     (simp add: example_deltas_def example_params_def validKeys_of_def Object_keys_def js_get_def
        getIndexTableName_def INDEX_KEYS_PROP_def ddb_simps)

text \<open>
  Claim C10. The valid keys are all keys whose value is not \<^verbatim>\<open>undefined\<close>, whatever its
  sign. A delta of zero or less is a valid key like any other: for \<^verbatim>\<open>{k: d}\<close> with
  \<open>d \<le> 0\<close> the request is not \<^verbatim>\<open>null\<close>, and its evaluation on a record whose map has no \<open>k\<close>
  stores \<open>k = d\<close>, a counter that is not positive. The write path never removes it; the next
  prune of that map drops it (it is among the dropped keys, not among the positive
  entries).
\<close>

theorem getDynamoDbUpdateItemParams_keeps_nonpositive_delta:
  assumes "getIndexTableName env = Inr t"
    and "map_of it INDEX_KEYS_PROP = Some (M m)"
    and "map_of m k = None"
    and "d \<le> 0"
  shows "(\<forall>j. j \<in> set (validKeys_of indexData) \<longleftrightarrow> js_get indexData j \<noteq> None)
    \<and> validKeys_of [(k, Some d)] = [k]
    \<and> (\<exists>p it' m'.
          getDynamoDbUpdateItemParams env timestamp indexId (Some [(k, Some d)]) = Inr (Some p)
        \<and> eval_update p it = Inr it'
        \<and> map_of it' INDEX_KEYS_PROP = Some (M m')
        \<and> map_of m' k = Some d
        \<and> k \<in> set (dropped_keys m')
        \<and> positives m' k = None)"
proof -
  have vk: "validKeys_of [(k, Some d)] = [k]"
    by (simp add: validKeys_of_def Object_keys_def js_get_def)
  let ?m' = "fold (\<lambda>kv. AList.update (fst kv) (snd kv))
               (map (\<lambda>j. (j, new_value m [(k, Some d)] j)) (validKeys_of [(k, Some d)])) m"
  let ?it' = "AList.update ''updatedAt'' (N timestamp) (AList.update INDEX_KEYS_PROP (M ?m') it)"
  have "distinct (Object_keys [(k, Some d)])" by (simp add: Object_keys_def)
  from increment_request_eval[OF assms(1) this _ assms(2), of timestamp indexId] vk
  obtain p where p: "getDynamoDbUpdateItemParams env timestamp indexId (Some [(k, Some d)]) = Inr (Some p)"
    and ev: "eval_update p it = Inr ?it'"
    by auto
  have a: "map_of ?it' INDEX_KEYS_PROP = Some (M ?m')"
    by (simp add: update_conv' INDEX_KEYS_PROP_def)
  have b: "map_of ?m' k = Some d"
    using assms(3) by (simp add: vk update_conv' new_value_def js_get_def)
  have c: "k \<in> set (dropped_keys ?m')"
    using b assms(4) by (simp add: dropped_keys_mem)
  have e: "positives ?m' k = None"
    using b assms(4) by (simp add: positives_def)
  have all: "\<forall>j. j \<in> set (validKeys_of indexData) \<longleftrightarrow> js_get indexData j \<noteq> None"
    by (simp add: validKeys_of_defined)
  from all vk p ev a b c e show ?thesis by blast
qed

theorem getDynamoDbUpdateItemParams_keeps_nonpositive_delta_witness:
  "validKeys_of [(''a'', Some 3), (''u'', None), (''z'', Some 0), (''n'', Some (- 2))]
     = [''a'', ''z'', ''n'']
   \<and> getIndexTableName (Some ''indexes'') = Inr ''indexes''
   \<and> map_of [(''indexKeys'', M [(''a'', 5)])] INDEX_KEYS_PROP = Some (M [(''a'', 5)])
   \<and> map_of [(''a'', 5 :: int)] ''k'' = None
   \<and> (0 :: int) \<le> 0
   \<and> (case updateIndexRecord ddb (Some ''indexes'') 1700000000000 TAGS_ID (Some [(''k'', Some 0)])
           \<lparr>db = [''tags'' \<mapsto> [(''indexKeys'', M [(''a'', 5)])]], sent = []\<rparr> of
         (r, g) \<Rightarrow>
           db g ''tags'' = Some [(''indexKeys'', M [(''a'', 5), (''k'', 0)]),
                                (''updatedAt'', N 1700000000000)]
           \<and> length (sent g) = 1)
   \<and> dropped_keys [(''a'', 5), (''k'', 0)] = [''k'']
   \<and> (case cleanZeroIndexes ddb (Some ''indexes'') \<lparr>people = 2, tags = 3\<rparr>
           (fresh_heap(3 := [(''a'', 5), (''k'', 0)]))
           \<lparr>db = [''tags'' \<mapsto> [(''indexKeys'', M [(''a'', 5), (''k'', 0)]),
                                (''updatedAt'', N 1700000000000)]], sent = []\<rparr> of
         (r, u, h', g) \<Rightarrow>
           u \<and> snapshot h' defaultIndex = ([], [(''a'', 5)])
           \<and> db g ''tags'' = Some [(''indexKeys'', M [(''a'', 5)])])"
  using getDynamoDbUpdateItemParams_keeps_nonpositive_delta
    [where env = "Some ''indexes''" and t = "''indexes''" and k = "''k''" and d = 0
       and it = "[(''indexKeys'', M [(''a'', 5)])]" and m = "[(''a'', 5)]"
       and timestamp = 1700000000000 and indexId = TAGS_ID
       and indexData = "[(''a'', Some 3), (''u'', None), (''z'', Some 0), (''n'', Some (- 2))]"]
  by (simp add: run_simps snapshot_def dropped_keys_def updateIndexRecord_def
      getDynamoDbUpdateItemParams_def validKeys_of_def js_get_def enumerate_eq_zip
      names_step_def values_step_def updateKeyValue_def show_nat_0 upt_rec
      updateAndHandleEmptyMap_cases ddb_simps)

end
